theory Spec2Isabelle
  imports Complex_Main
begin

section \<open>Common types\<close>

text \<open>
  The simulation computes with \<open>real_t\<close> (a C++ floating-point type). The embedding
  reads every \<open>real_t\<close> as a mathematical real: comparisons, sums, products, quotients
  and square roots are exact.
\<close>

type_synonym real_t = real

text \<open>
  Modelled from the spec: the vectors \<open>Real3\<close> and \<open>Real4\<close>
  (\<open>MathArray<real_t, N>\<close> of \<open>core/container/math_array.h\<close>) and
  \<open>Math::GetL2Distance\<close> (\<open>core/util/math.h\<close>); neither header is among the sources.
  The vectors are tuples, and the operators the force code applies to them have their
  entry-wise meaning: difference, sum, product and quotient by a scalar, entry-wise
  product, sum of the entries, Euclidean norm and Euclidean distance. Nothing proved
  below depends on the value of the norm of the zero vector.
\<close>

type_synonym Real3 = "real \<times> real \<times> real"
type_synonym Real4 = "real \<times> real \<times> real \<times> real"

definition sub3 :: "Real3 \<Rightarrow> Real3 \<Rightarrow> Real3" where
  "sub3 a b = (case a of (a0, a1, a2) \<Rightarrow> case b of (b0, b1, b2) \<Rightarrow> (a0 - b0, a1 - b1, a2 - b2))"

definition add3 :: "Real3 \<Rightarrow> Real3 \<Rightarrow> Real3" where
  "add3 a b = (case a of (a0, a1, a2) \<Rightarrow> case b of (b0, b1, b2) \<Rightarrow> (a0 + b0, a1 + b1, a2 + b2))"

definition scale3 :: "Real3 \<Rightarrow> real \<Rightarrow> Real3" where
  "scale3 a k = (case a of (a0, a1, a2) \<Rightarrow> (a0 * k, a1 * k, a2 * k))"

definition div3 :: "Real3 \<Rightarrow> real \<Rightarrow> Real3" where
  "div3 a k = (case a of (a0, a1, a2) \<Rightarrow> (a0 / k, a1 / k, a2 / k))"

definition EntryWiseProduct :: "Real3 \<Rightarrow> Real3 \<Rightarrow> Real3" where
  "EntryWiseProduct a b = (case a of (a0, a1, a2) \<Rightarrow> case b of (b0, b1, b2) \<Rightarrow> (a0 * b0, a1 * b1, a2 * b2))"

definition Sum3 :: "Real3 \<Rightarrow> real" where
  "Sum3 a = (case a of (a0, a1, a2) \<Rightarrow> a0 + a1 + a2)"

definition Norm :: "Real3 \<Rightarrow> real" where
  "Norm a = (case a of (a0, a1, a2) \<Rightarrow> sqrt (a0 * a0 + a1 * a1 + a2 * a2))"

definition GetL2Distance :: "Real3 \<Rightarrow> Real3 \<Rightarrow> real" where
  "GetL2Distance a b = Norm (sub3 a b)"

definition neg3_of4 :: "Real4 \<Rightarrow> Real3" where
  "neg3_of4 t = (case t of (t0, t1, t2, t3) \<Rightarrow> (- t0, - t1, - t2))"

section \<open>Logging and the random generator\<close>

text \<open>
  Modelled from the spec: \<open>Log::Warning\<close>, \<open>Log::Error\<close> and \<open>Log::Fatal\<close> of
  \<open>core/util/log.h\<close>, which is not among the sources. A warning or an error is
  logged and the caller goes on; a fatal error terminates the process with a
  diagnostic message. So \<open>Log_Warning\<close> and \<open>Log_Error\<close> append an entry to the log,
  and a function that reaches \<open>Log_Fatal\<close> yields \<open>Inl\<close> of the fatal error: nothing
  written after the call is executed.
\<close>

datatype log_entry = Warning string string | Error string string

datatype error = Fatal string string

definition Log_Warning :: "string \<Rightarrow> string \<Rightarrow> log_entry list \<Rightarrow> log_entry list" where
  "Log_Warning tag msg entries = entries @ [Warning tag msg]"

definition Log_Error :: "string \<Rightarrow> string \<Rightarrow> log_entry list \<Rightarrow> log_entry list" where
  "Log_Error tag msg entries = entries @ [Error tag msg]"

definition Log_Fatal :: "string \<Rightarrow> string \<Rightarrow> error + 'a" where
  "Log_Fatal tag msg = Inl (Fatal tag msg)"

text \<open>
  Modelled from the spec: \<open>Random::UniformArray<3>(lo, hi)\<close> of \<open>core/util/random.h\<close>,
  which is not among the sources. The generator's state is the sequence of its future
  unit draws; \<open>UniformArray3\<close> consumes three of them and scales each into the requested
  interval. \<open>unit_draws\<close> says that every draw lies between 0 and 1.
\<close>

type_synonym Random = "nat \<Rightarrow> real"

definition unit_draws :: "Random \<Rightarrow> bool" where
  "unit_draws rnd = (\<forall>n. 0 \<le> rnd n \<and> rnd n \<le> 1)"

definition UniformArray3 :: "real \<Rightarrow> real \<Rightarrow> Random \<Rightarrow> Real3 \<times> Random" where
  "UniformArray3 lo hi rnd =
     ((lo + (hi - lo) * rnd 0, lo + (hi - lo) * rnd 1, lo + (hi - lo) * rnd 2),
      (\<lambda>n. rnd (n + 3)))"

section \<open>Agents\<close>

text \<open>
  Modelled from the spec: the types \<open>Shape\<close>, \<open>Agent\<close> and \<open>NeuriteElement\<close>;
  \<open>core/shape.h\<close>, \<open>core/agent/agent.h\<close> and \<open>neuroscience/neurite_element.h\<close> are
  not among the sources. \<open>Shape\<close> has the two enumerators the force code names;
  \<open>kOtherShape n\<close> stands for any further discriminant. An agent has a unique
  identifier and carries what the force code reads from it: shape, position and
  diameter of every agent, and the end points, spring axis and mass location that
  \<open>bdm_static_cast<const NeuriteElement*>\<close> reads from a cylinder.
\<close>

datatype Shape = kSphere | kCylinder | kOtherShape nat

record Agent =
  uid :: nat
  shape :: Shape
  position :: Real3
  diameter :: real
  proximal_end :: Real3
  distal_end :: Real3
  spring_axis :: Real3
  mass_location :: Real3

section \<open>interaction\_force.cc\<close>

text \<open>
  Both sphere-sphere routines run the same three-way test on the overlap and the
  centre distance. \<open>overlap_branch\<close> is that test; the constructor \<open>Separated d\<close>
  carries the divisor of the only division by the centre distance.
\<close>

datatype branch = NoOverlap | NearCoincident | Separated real

definition overlap_branch :: "real \<Rightarrow> real \<Rightarrow> branch" where
  "overlap_branch delta center_distance =
     (if delta < 0 then NoOverlap
      else if center_distance < 0.00000001 then NearCoincident
      else Separated center_distance)"

definition center_distance :: "Real3 \<Rightarrow> Real3 \<Rightarrow> real" where
  "center_distance c1 c2 =
     (case c1 of (c10, c11, c12) \<Rightarrow> case c2 of (c20, c21, c22) \<Rightarrow>
        (let comp1 = c10 - c20; comp2 = c11 - c21; comp3 = c12 - c22
         in sqrt (comp1 * comp1 + comp2 * comp2 + comp3 * comp3)))"

definition additional_radius :: real where
  "additional_radius = 10.0 * min 0.15 0.15"

definition ForceBetweenSpheres_branch :: "Agent \<Rightarrow> Agent \<Rightarrow> branch" where
  "ForceBetweenSpheres_branch sphere_lhs sphere_rhs =
     (let r1 = 0.5 * diameter sphere_lhs + additional_radius;
          r2 = 0.5 * diameter sphere_rhs + additional_radius;
          dist = center_distance (position sphere_lhs) (position sphere_rhs);
          delta = r1 + r2 - dist
      in overlap_branch delta dist)"

definition ForceBetweenSpheres :: "Random \<Rightarrow> Agent \<Rightarrow> Agent \<Rightarrow> Real3 \<times> Random" where
  "ForceBetweenSpheres rnd sphere_lhs sphere_rhs =
     (case position sphere_lhs of (c10, c11, c12) \<Rightarrow>
      case position sphere_rhs of (c20, c21, c22) \<Rightarrow>
       (let r1 = 0.5 * diameter sphere_lhs + additional_radius;
            r2 = 0.5 * diameter sphere_rhs + additional_radius;
            comp1 = c10 - c20; comp2 = c11 - c21; comp3 = c12 - c22;
            dist = sqrt (comp1 * comp1 + comp2 * comp2 + comp3 * comp3);
            delta = r1 + r2 - dist
        in case overlap_branch delta dist of
             NoOverlap \<Rightarrow> ((0, 0, 0), rnd)
           | NearCoincident \<Rightarrow> UniformArray3 (-3) 3 rnd
           | Separated d \<Rightarrow>
               (let r = (r1 * r2) / (r1 + r2);
                    gamma = 1;
                    k = 2;
                    f = k * delta - gamma * sqrt (r * delta);
                    force_module = f / d
                in ((force_module * comp1, force_module * comp2, force_module * comp3), rnd))))"

definition ComputeForceOfASphereOnASphere_branch ::
  "Real3 \<Rightarrow> real \<Rightarrow> Real3 \<Rightarrow> real \<Rightarrow> branch" where
  "ComputeForceOfASphereOnASphere_branch c1 r1 c2 r2 =
     (let dist = center_distance c1 c2; a = r1 + r2 - dist in overlap_branch a dist)"

definition ComputeForceOfASphereOnASphere ::
  "Random \<Rightarrow> Real3 \<Rightarrow> real \<Rightarrow> Real3 \<Rightarrow> real \<Rightarrow> Real4 \<times> Random" where
  "ComputeForceOfASphereOnASphere rnd c1 r1 c2 r2 =
     (case c1 of (c10, c11, c12) \<Rightarrow> case c2 of (c20, c21, c22) \<Rightarrow>
       (let comp1 = c10 - c20; comp2 = c11 - c21; comp3 = c12 - c22;
            distance_between_centers = sqrt (comp1 * comp1 + comp2 * comp2 + comp3 * comp3);
            a = r1 + r2 - distance_between_centers
        in case overlap_branch a distance_between_centers of
             NoOverlap \<Rightarrow> ((0, 0, 0, 0), rnd)
           | NearCoincident \<Rightarrow>
               (case UniformArray3 (-3) 3 rnd of
                  ((f0, f1, f2), rnd') \<Rightarrow> ((f0, f1, f2, 0), rnd'))
           | Separated d \<Rightarrow>
               (let force_module = a / d
                in ((force_module * comp1, force_module * comp2, force_module * comp3, 0), rnd))))"

definition ForceOnACylinderFromASphere :: "Random \<Rightarrow> Agent \<Rightarrow> Agent \<Rightarrow> Real4 \<times> Random" where
  "ForceOnACylinderFromASphere rnd cylinder sphere =
     (let axis = spring_axis cylinder;
          actual_length = Norm axis;
          d = diameter cylinder;
          c = position sphere;
          r = 0.5 * diameter sphere
      in if actual_length < r then
           (let rc = 0.5 * d;
                dvec = scale3 (div3 axis actual_length) rc;
                npd = sub3 (distal_end cylinder) dvec
            in ComputeForceOfASphereOnASphere rnd npd rc c r)
         else
           (let proximal_end_closest = sub3 c (proximal_end cylinder);
                proximal_end_closest_axis = Sum3 (EntryWiseProduct proximal_end_closest axis);
                k = proximal_end_closest_axis / (actual_length * actual_length);
                (proportion_to_proximal_end, cc) =
                   (if k \<le> 1.0 \<and> k \<ge> 0.0 then (1.0 - k, add3 (proximal_end cylinder) (scale3 axis k))
                    else if k < 0 then (1.0, proximal_end cylinder)
                    else (0.0, distal_end cylinder));
                penetration = d / 2 + r - GetL2Distance c cc
            in if penetration \<le> 0 then ((0, 0, 0, 0), rnd)
               else (case ComputeForceOfASphereOnASphere rnd cc (d * 0.5) c r of
                       ((f0, f1, f2, f3), rnd') \<Rightarrow> ((f0, f1, f2, proportion_to_proximal_end), rnd'))))"

definition ForceOnASphereFromACylinder :: "Random \<Rightarrow> Agent \<Rightarrow> Agent \<Rightarrow> Real3 \<times> Random" where
  "ForceOnASphereFromACylinder rnd sphere cylinder =
     (case ForceOnACylinderFromASphere rnd cylinder sphere of
        (temp, rnd') \<Rightarrow> (neg3_of4 temp, rnd'))"

definition ForceBetweenCylinders :: "Random \<Rightarrow> Agent \<Rightarrow> Agent \<Rightarrow> Real4 \<times> Random" where
  "ForceBetweenCylinders rnd cylinder1 cylinder2 =
     (case proximal_end cylinder1 of (ax, ay, az) \<Rightarrow>
      case mass_location cylinder1 of (bx, by, bz) \<Rightarrow>
      case proximal_end cylinder2 of (cx, cy, cz) \<Rightarrow>
      case mass_location cylinder2 of (dx, dy, dz) \<Rightarrow>
       (let d1 = diameter cylinder1; d2 = diameter cylinder2;
            p13x = ax - cx; p13y = ay - cy; p13z = az - cz;
            p43x = dx - cx; p43y = dy - cy; p43z = dz - cz;
            p21x = bx - ax; p21y = by - ay; p21z = bz - az;
            d1343 = p13x * p43x + p13y * p43y + p13z * p43z;
            d4321 = p21x * p43x + p21y * p43y + p21z * p43z;
            d1321 = p21x * p13x + p21y * p13y + p21z * p13z;
            d4343 = p43x * p43x + p43y * p43y + p43z * p43z;
            d2121 = p21x * p21x + p21y * p21y + p21z * p21z;
            denom = d2121 * d4343 - d4321 * d4321;
            (k, p1, p2) =
              (if denom > 0.000000000001 then
                 (let numer = d1343 * d4321 - d1321 * d4343;
                      mua = numer / denom;
                      mub = (d1343 + mua * d4321) / d4343;
                      (k', p1') =
                        (if mua < 0 then (1, (ax, ay, az))
                         else if mua > 1 then (0, (bx, by, bz))
                         else (1 - mua, (ax + mua * p21x, ay + mua * p21y, az + mua * p21z)));
                      p2' =
                        (if mub < 0 then (cx, cy, cz)
                         else if mub > 1 then (dx, dy, dz)
                         else (cx + mub * p43x, cy + mub * p43y, cz + mub * p43z))
                  in (k', p1', p2'))
               else
                 (0.5,
                  add3 (ax, ay, az) (scale3 (sub3 (bx, by, bz) (ax, ay, az)) 0.5),
                  add3 (cx, cy, cz) (scale3 (sub3 (dx, dy, dz) (cx, cy, cz)) 0.5)))
        in case ComputeForceOfASphereOnASphere rnd p1 (d1 / 2.0) p2 (d2 / 2.0) of
             ((f0, f1, f2, f3), rnd') \<Rightarrow> ((f0 * 10, f1 * 10, f2 * 10, k), rnd')))"

definition with_zero :: "Real3 \<times> Random \<Rightarrow> Real4 \<times> Random" where
  "with_zero res = (case res of ((r0, r1, r2), rnd') \<Rightarrow> ((r0, r1, r2, 0), rnd'))"

definition Calculate :: "Random \<Rightarrow> Agent \<Rightarrow> Agent \<Rightarrow> error + (Real4 \<times> Random)" where
  "Calculate rnd lhs rhs =
     (if shape lhs = kSphere \<and> shape rhs = kSphere then
        Inr (with_zero (ForceBetweenSpheres rnd lhs rhs))
      else if shape lhs = kSphere \<and> shape rhs = kCylinder then
        Inr (with_zero (ForceOnASphereFromACylinder rnd lhs rhs))
      else if shape lhs = kCylinder \<and> shape rhs = kSphere then
        Inr (ForceOnACylinderFromASphere rnd lhs rhs)
      else if shape lhs = kCylinder \<and> shape rhs = kCylinder then
        Inr (ForceBetweenCylinders rnd lhs rhs)
      else
        Log_Fatal ''InteractionForce''
          ''InteractionForce only supports sphere or cylinder shapes'')"


section \<open>The execution context (ApproximateExecCtxt)\<close>

text \<open>
  Modelled from the spec: the authoritative agent collection. \<open>resource_manager.h\<close> is
  not among the sources; the collection is the list of its agents, \<open>push_back\<close>
  appends, \<open>Remove\<close> deletes the agent with the given identifier (and does nothing
  when there is none), \<open>Contains\<close> and \<open>GetSimObject_rm\<close> look an identifier up.
\<close>

type_synonym SoUid = nat
type_synonym ResourceManager = "Agent list"

definition push_back :: "ResourceManager \<Rightarrow> Agent \<Rightarrow> ResourceManager" where
  "push_back rm so = rm @ [so]"

definition Remove :: "ResourceManager \<Rightarrow> SoUid \<Rightarrow> ResourceManager" where
  "Remove rm u = filter (\<lambda>so. uid so \<noteq> u) rm"

definition Contains :: "ResourceManager \<Rightarrow> SoUid \<Rightarrow> bool" where
  "Contains rm u = (\<exists>so \<in> set rm. uid so = u)"

definition GetSimObject_rm :: "ResourceManager \<Rightarrow> SoUid \<Rightarrow> Agent option" where
  "GetSimObject_rm rm u = find (\<lambda>so. uid so = u) rm"

text \<open>
  The context owns the pending-removal list (the member \<^verbatim>\<open>remove_\<close>, here
  \<open>remove_uids\<close>) and the staging collection (the member \<^verbatim>\<open>new_sim_objects_\<close>,
  here \<open>new_sim_objects\<close>). Its operations read and write the context and the active
  simulation's resource manager, so each takes and returns the pair of both.
\<close>

record ApproximateExecCtxt =
  remove_uids :: "SoUid list"
  new_sim_objects :: ResourceManager

definition TearDownIteration ::
  "ApproximateExecCtxt \<times> ResourceManager \<Rightarrow> ApproximateExecCtxt \<times> ResourceManager" where
  "TearDownIteration st =
     (case st of (ctxt, rm) \<Rightarrow>
        (let rm1 = fold (\<lambda>sim_object r. push_back r sim_object) (new_sim_objects ctxt) rm;
             ctxt1 = ctxt\<lparr>new_sim_objects := []\<rparr>;
             rm2 = fold (\<lambda>u r. Remove r u) (remove_uids ctxt1) rm1;
             ctxt2 = ctxt1\<lparr>remove_uids := []\<rparr>
         in (ctxt2, rm2)))"

definition New :: "ApproximateExecCtxt \<Rightarrow> Agent \<Rightarrow> ApproximateExecCtxt" where
  "New ctxt so = ctxt\<lparr>new_sim_objects := push_back (new_sim_objects ctxt) so\<rparr>"

definition RemoveFromSimulation :: "ApproximateExecCtxt \<Rightarrow> SoUid \<Rightarrow> ApproximateExecCtxt" where
  "RemoveFromSimulation ctxt u = ctxt\<lparr>remove_uids := remove_uids ctxt @ [u]\<rparr>"

definition GetSimObject :: "ApproximateExecCtxt \<Rightarrow> ResourceManager \<Rightarrow> SoUid \<Rightarrow> Agent option" where
  "GetSimObject ctxt rm u =
     (if Contains (new_sim_objects ctxt) u then GetSimObject_rm (new_sim_objects ctxt) u
      else GetSimObject_rm rm u)"

section \<open>model\_initializer.cc\<close>

text \<open>
  Modelled from the spec: the constructors \<open>EulerGrid\<close> and \<open>RungeKuttaGrid\<close>;
  \<open>euler_grid.h\<close> and \<open>runge_kutta_grid.h\<close> are not among the sources. A continuum
  records which class was constructed and the constructor's arguments. The
  \<open>RungeKuttaGrid\<close> constructor takes no decay constant; the grid it builds has decay
  zero (``decay forced to zero'', and the warning's own text ``Using 0.'').
\<close>

datatype grid_class = EulerGridClass | RungeKuttaGridClass

record Continuum =
  grid_class :: grid_class
  substance_id :: nat
  substance_name :: string
  diffusion_coeff :: real
  decay_constant :: real
  resolution :: int

definition EulerGrid :: "nat \<Rightarrow> string \<Rightarrow> real \<Rightarrow> real \<Rightarrow> int \<Rightarrow> Continuum" where
  "EulerGrid sid name dc mu res =
     \<lparr>grid_class = EulerGridClass, substance_id = sid, substance_name = name,
      diffusion_coeff = dc, decay_constant = mu, resolution = res\<rparr>"

definition RungeKuttaGrid :: "nat \<Rightarrow> string \<Rightarrow> real \<Rightarrow> int \<Rightarrow> Continuum" where
  "RungeKuttaGrid sid name dc res =
     \<lparr>grid_class = RungeKuttaGridClass, substance_id = sid, substance_name = name,
      diffusion_coeff = dc, decay_constant = 0, resolution = res\<rparr>"

text \<open>
  The active simulation, as far as \<open>DefineSubstance\<close> touches it: the configured
  diffusion method, the continua registered with the resource manager, and the log.
\<close>

record Simulation =
  diffusion_method :: string
  continua :: "Continuum list"
  logged :: "log_entry list"

definition AddContinuum :: "Continuum \<Rightarrow> Simulation \<Rightarrow> Simulation" where
  "AddContinuum dgrid sim = sim\<lparr>continua := continua sim @ [dgrid]\<rparr>"

definition DefineSubstance ::
  "Simulation \<Rightarrow> nat \<Rightarrow> string \<Rightarrow> real \<Rightarrow> real \<Rightarrow> int \<Rightarrow> error + Simulation" where
  "DefineSubstance sim sid name dc decay res =
     (if diffusion_method sim = ''euler'' then
        Inr (AddContinuum (EulerGrid sid name dc decay res) sim)
      else if diffusion_method sim = ''runge-kutta'' then
        (let sim1 =
               (if decay \<noteq> 0 then
                  sim\<lparr>logged := Log_Warning ''ModelInitializer::DefineSubstance''
                     ''RungeKuttaGrid does not support a decay constant. Using 0.'' (logged sim)\<rparr>
                else sim)
         in Inr (AddContinuum (RungeKuttaGrid sid name dc res) sim1))
      else
        (let sim1 = sim\<lparr>logged := Log_Error ''ModelInitializer::DefineSubstance''
                     (''Diffusion method '' @ [CHR 0x27] @ diffusion_method sim @ [CHR 0x27]
                        @ '' does not exist. Defaulting to '' @ [CHR 0x27] @ ''euler'' @ [CHR 0x27])
                     (logged sim)\<rparr>
         in Inr (AddContinuum (EulerGrid sid name dc decay res) sim1)))"

section \<open>The uniform grid (UniformGridEnvironment)\<close>

text \<open>
  Modelled from the spec: the state of the uniform grid.
  \<open>core/environment/uniform_grid_environment.h\<close> is not among the sources; only its
  tests are. The grid has the bounding box \<open>grid_dimensions\<close>
  (\<open>x_min, x_max, y_min, y_max, z_min, z_max\<close>, integers as in
  \<open>GridTest.GridDimensions\<close>), the box edge length, and for every box index the agents
  of that box. The per-axis box count is \<open>ceil(extent / box_length)\<close>, at least 1.
\<close>

type_synonym Dimensions = "int \<times> int \<times> int \<times> int \<times> int \<times> int"

record Grid =
  grid_dimensions :: Dimensions
  box_length :: int
  boxes :: "nat \<Rightarrow> Agent list"

definition num_boxes :: "int \<Rightarrow> int \<Rightarrow> int \<Rightarrow> nat" where
  "num_boxes lo hi len = max 1 (nat \<lceil>real_of_int (hi - lo) / real_of_int len\<rceil>)"

definition GetNumBoxesAxis :: "Grid \<Rightarrow> nat \<times> nat \<times> nat" where
  "GetNumBoxesAxis g =
     (case grid_dimensions g of (x0, x1, y0, y1, z0, z1) \<Rightarrow>
        (num_boxes x0 x1 (box_length g), num_boxes y0 y1 (box_length g),
         num_boxes z0 z1 (box_length g)))"

text \<open>
  Modelled from the spec: the box coordinate of a position along one axis. The
  origin-shifted position is divided by the box length and rounded down (floor
  semantics); a coordinate past the last box is clamped to the last box, and a
  coordinate below the first box (a position outside the bounding box, which the
  specification leaves open) to the first.
\<close>

definition box_coordinate :: "int \<Rightarrow> int \<Rightarrow> nat \<Rightarrow> real \<Rightarrow> nat" where
  "box_coordinate lo len n p =
     (let c = \<lfloor>(p - real_of_int lo) / real_of_int len\<rfloor>
      in if c < 0 then 0 else if int n \<le> c then n - 1 else nat c)"

definition PositionToBoxCoordinates :: "Grid \<Rightarrow> Real3 \<Rightarrow> nat \<times> nat \<times> nat" where
  "PositionToBoxCoordinates g pos =
     (case grid_dimensions g of (x0, x1, y0, y1, z0, z1) \<Rightarrow>
      case GetNumBoxesAxis g of (nx, ny, nz) \<Rightarrow>
      case pos of (px, py, pz) \<Rightarrow>
        (box_coordinate x0 (box_length g) nx px,
         box_coordinate y0 (box_length g) ny py,
         box_coordinate z0 (box_length g) nz pz))"

text \<open>Modelled from the spec: the flattening \<open>idx = x + y*nx + z*nx*ny\<close>.\<close>

definition FlattenBoxCoordinates :: "Grid \<Rightarrow> nat \<times> nat \<times> nat \<Rightarrow> nat" where
  "FlattenBoxCoordinates g c =
     (case GetNumBoxesAxis g of (nx, ny, nz) \<Rightarrow>
      case c of (x, y, z) \<Rightarrow> x + y * nx + z * nx * ny)"

definition GetBoxIndex :: "Grid \<Rightarrow> Real3 \<Rightarrow> nat" where
  "GetBoxIndex g pos = FlattenBoxCoordinates g (PositionToBoxCoordinates g pos)"

text \<open>
  Modelled from the spec: \<open>GetBoxCoordinates\<close>, the inverse of the flattening, by
  division with remainder.
\<close>

definition GetBoxCoordinates :: "Grid \<Rightarrow> nat \<Rightarrow> nat \<times> nat \<times> nat" where
  "GetBoxCoordinates g box_idx =
     (case GetNumBoxesAxis g of (nx, ny, nz) \<Rightarrow>
        (let remainder = box_idx mod (nx * ny)
         in (remainder mod nx, remainder div nx, box_idx div (nx * ny))))"

definition GetNumBoxes :: "Grid \<Rightarrow> nat" where
  "GetNumBoxes g = (case GetNumBoxesAxis g of (nx, ny, nz) \<Rightarrow> nx * ny * nz)"

text \<open>
  Modelled from the spec: a world position of the box with integer coordinates
  \<open>(x, y, z)\<close>, its corner of least coordinates.
\<close>

definition worldPositionOf :: "Grid \<Rightarrow> nat \<times> nat \<times> nat \<Rightarrow> Real3" where
  "worldPositionOf g c =
     (case grid_dimensions g of (x0, x1, y0, y1, z0, z1) \<Rightarrow>
      case c of (x, y, z) \<Rightarrow>
        (real_of_int (x0 + int x * box_length g),
         real_of_int (y0 + int y * box_length g),
         real_of_int (z0 + int z * box_length g)))"

text \<open>
  Modelled from the spec: the cubic extent of a box. A position lies in the box
  \<open>(x, y, z)\<close> when, along each axis, it is at or above the box's lower face and
  strictly below its upper face.
\<close>

definition in_box_axis :: "int \<Rightarrow> int \<Rightarrow> nat \<Rightarrow> real \<Rightarrow> bool" where
  "in_box_axis lo len k p =
     (real_of_int (lo + int k * len) \<le> p \<and> p < real_of_int (lo + (int k + 1) * len))"

definition InBox :: "Grid \<Rightarrow> nat \<times> nat \<times> nat \<Rightarrow> Real3 \<Rightarrow> bool" where
  "InBox g c pos =
     (case grid_dimensions g of (x0, x1, y0, y1, z0, z1) \<Rightarrow>
      case c of (x, y, z) \<Rightarrow>
      case pos of (px, py, pz) \<Rightarrow>
        in_box_axis x0 (box_length g) x px \<and>
        in_box_axis y0 (box_length g) y py \<and>
        in_box_axis z0 (box_length g) z pz)"

text \<open>
  Modelled from the spec: the bounding box. The grid is well formed when the box
  length is positive and no axis has its maximum below its minimum; a position is
  within the bounding box when each of its components lies between the axis' minimum
  and maximum, both included.
\<close>

definition WellFormed :: "Grid \<Rightarrow> bool" where
  "WellFormed g =
     (case grid_dimensions g of (x0, x1, y0, y1, z0, z1) \<Rightarrow>
        0 < box_length g \<and> x0 \<le> x1 \<and> y0 \<le> y1 \<and> z0 \<le> z1)"

definition InBounds :: "Grid \<Rightarrow> Real3 \<Rightarrow> bool" where
  "InBounds g pos =
     (case grid_dimensions g of (x0, x1, y0, y1, z0, z1) \<Rightarrow>
      case pos of (px, py, pz) \<Rightarrow>
        real_of_int x0 \<le> px \<and> px \<le> real_of_int x1 \<and>
        real_of_int y0 \<le> py \<and> py \<le> real_of_int y1 \<and>
        real_of_int z0 \<le> pz \<and> pz \<le> real_of_int z1)"

text \<open>
  Modelled from the spec: \<open>Update()\<close> assigns every agent to the one box its position
  maps to; box membership is recomputed from scratch. The bounding box and the box
  edge length are what the rebuild derives from the agents or takes from a configured
  boundary; that derivation is not modelled, both are arguments of \<open>Update\<close>, and what
  is proved of \<open>Update\<close> holds for each of their values.
\<close>

definition Update :: "Dimensions \<Rightarrow> int \<Rightarrow> Agent list \<Rightarrow> Grid" where
  "Update dims len agents =
     (let g = \<lparr>grid_dimensions = dims, box_length = len, boxes = (\<lambda>idx. [])\<rparr>
      in g\<lparr>boxes := (\<lambda>idx. filter (\<lambda>a. GetBoxIndex g (position a) = idx) agents)\<rparr>)"

text \<open>
  Modelled from the spec: \<open>ForEachNeighborWithinRadius\<close>. It visits the query agent's
  own box and the adjacent boxes that exist (the 3 by 3 by 3 block around it, cut at
  the grid's faces) and calls the callback on every agent there, other than the query
  agent, whose squared Euclidean distance to the query agent is at most
  \<open>squared_radius\<close>. The result is the list of agents the callback was called on, in
  the order of the calls.
\<close>

definition SquaredEuclideanDistance :: "Real3 \<Rightarrow> Real3 \<Rightarrow> real" where
  "SquaredEuclideanDistance a b =
     (case a of (a0, a1, a2) \<Rightarrow> case b of (b0, b1, b2) \<Rightarrow>
        (a0 - b0) * (a0 - b0) + (a1 - b1) * (a1 - b1) + (a2 - b2) * (a2 - b2))"

definition adjacent_coordinates :: "nat \<Rightarrow> nat \<Rightarrow> nat list" where
  "adjacent_coordinates n c =
     (if 0 < c then [c - 1] else []) @ [c] @ (if c + 1 < n then [c + 1] else [])"

definition neighbor_boxes :: "Grid \<Rightarrow> nat \<times> nat \<times> nat \<Rightarrow> nat list" where
  "neighbor_boxes g c =
     (case GetNumBoxesAxis g of (nx, ny, nz) \<Rightarrow>
      case c of (x, y, z) \<Rightarrow>
        concat (map (\<lambda>z'. concat (map (\<lambda>y'. map (\<lambda>x'. FlattenBoxCoordinates g (x', y', z'))
                                                 (adjacent_coordinates nx x))
                                      (adjacent_coordinates ny y)))
                    (adjacent_coordinates nz z)))"

definition ForEachNeighborWithinRadius :: "Grid \<Rightarrow> Agent \<Rightarrow> real \<Rightarrow> Agent list" where
  "ForEachNeighborWithinRadius g query squared_radius =
     concat (map (\<lambda>box_idx.
                    filter (\<lambda>other. uid other \<noteq> uid query \<and>
                                     SquaredEuclideanDistance (position other) (position query)
                                       \<le> squared_radius)
                           (boxes g box_idx))
                 (neighbor_boxes g (PositionToBoxCoordinates g (position query))))"

text \<open>
  The fixtures of the grid tests. \<open>CellFactory\<close> is in the test file: a cubic lattice
  of cells, spacing 20, diameter 30, created with \<open>k\<close> running fastest; the
  identifiers count the cells in creation order. \<open>Cell::GetShape\<close> returns
  \<open>kSphere\<close>. \<open>lattice3_grid\<close> is the grid of the lattice with three cells per
  dimension: \<open>GridTest.GridDimensions\<close> expects the bounding box
  \<open>{-30, 90, -30, 90, -30, 90}\<close> and \<open>GridTest.GetBoxCoordinates\<close> a grid of
  4 by 4 by 4 boxes, which makes the box length 30. \<open>lattice4_grid\<close> is the grid of
  \<open>GridTest.SetupGrid\<close>, the lattice with four cells per dimension, with the same
  box length and one box length of margin around the cells.
\<close>

definition Cell :: "nat \<Rightarrow> Real3 \<Rightarrow> real \<Rightarrow> Agent" where
  "Cell u pos d =
     \<lparr>uid = u, shape = kSphere, position = pos, diameter = d,
      proximal_end = (0, 0, 0), distal_end = (0, 0, 0), spring_axis = (0, 0, 0),
      mass_location = pos\<rparr>"

definition CellFactory :: "nat \<Rightarrow> Agent list" where
  "CellFactory cells_per_dim =
     concat (map (\<lambda>i. concat (map (\<lambda>j. map (\<lambda>k.
        Cell (k + j * cells_per_dim + i * cells_per_dim * cells_per_dim)
             (real k * 20, real j * 20, real i * 20) 30)
        [0..<cells_per_dim]) [0..<cells_per_dim])) [0..<cells_per_dim])"

definition lattice3_grid :: Grid where
  "lattice3_grid = Update (-30, 90, -30, 90, -30, 90) 30 (CellFactory 3)"

definition lattice4_grid :: Grid where
  "lattice4_grid = Update (-30, 90, -30, 90, -30, 90) 30 (CellFactory 4)"

text \<open>
  A second fixture: three cells of diameter 30 in a row along the x axis, in a grid
  with box length 30 whose bounding box reaches one box length beyond the cells.
\<close>

definition row_cells :: "Agent list" where
  "row_cells = [Cell 0 (0, 0, 0) 30, Cell 1 (29, 0, 0) 30, Cell 2 (60, 0, 0) 30]"

definition row_grid :: Grid where
  "row_grid = Update (-30, 90, -30, 30, -30, 30) 30 row_cells"

section \<open>The diffusion grid (DiffusionGrid)\<close>

text \<open>
  Modelled from the spec: the state of the diffusion grid and \<open>Initialize()\<close>.
  \<open>core/diffusion/diffusion_grid.h\<close> is not among the sources; only
  \<open>DiffusionInitTest\<close> is. The members the initialisation touches are the two
  concentration buffers \<open>c1\<close> (current) and \<open>c2\<close> (next), the gradient buffer, the
  list of initializer functions, and the geometry: lower corner and box length of the
  grid and the number of grid points per axis. \<open>Initialize()\<close> sizes both
  concentration buffers to the number of grid points and the gradient buffer to three
  times that, and fills them with zeros.
\<close>

record DiffusionGrid =
  dgrid_dimensions :: Dimensions
  dgrid_box_length :: real
  num_boxes_axis :: "nat \<times> nat \<times> nat"
  initializers :: "(real \<Rightarrow> real \<Rightarrow> real \<Rightarrow> real) list"
  c1 :: "real list"
  c2 :: "real list"
  gradients :: "real list"

definition total_num_boxes :: "DiffusionGrid \<Rightarrow> nat" where
  "total_num_boxes dg = (case num_boxes_axis dg of (nx, ny, nz) \<Rightarrow> nx * ny * nz)"

definition Initialize :: "DiffusionGrid \<Rightarrow> DiffusionGrid" where
  "Initialize dg =
     dg\<lparr>c1 := replicate (total_num_boxes dg) 0,
        c2 := replicate (total_num_boxes dg) 0,
        gradients := replicate (3 * total_num_boxes dg) 0\<rparr>"

text \<open>
  Modelled from the spec: \<open>RunInitializers()\<close>. For every initializer and every grid
  point, in three nested loops over the axes, the point's real-world coordinate is
  computed back from its grid index and the initializer's value there is stored as
  the point's concentration. The shadow buffer then receives the same values
  (``Both internal arrays (c1\_ and c2\_) need to be initialized'', says the test).
\<close>

definition dgrid_box_index :: "DiffusionGrid \<Rightarrow> nat \<times> nat \<times> nat \<Rightarrow> nat" where
  "dgrid_box_index dg c =
     (case num_boxes_axis dg of (nx, ny, nz) \<Rightarrow>
      case c of (x, y, z) \<Rightarrow> x + y * nx + z * nx * ny)"

definition real_coordinate :: "DiffusionGrid \<Rightarrow> nat \<times> nat \<times> nat \<Rightarrow> Real3" where
  "real_coordinate dg c =
     (case dgrid_dimensions dg of (x0, x1, y0, y1, z0, z1) \<Rightarrow>
      case c of (x, y, z) \<Rightarrow>
        (real_of_int x0 + real x * dgrid_box_length dg,
         real_of_int y0 + real y * dgrid_box_length dg,
         real_of_int z0 + real z * dgrid_box_length dg))"

definition init_point ::
  "DiffusionGrid \<Rightarrow> (real \<Rightarrow> real \<Rightarrow> real \<Rightarrow> real) \<Rightarrow> nat \<times> nat \<times> nat \<Rightarrow> real list \<Rightarrow> real list" where
  "init_point dg f c conc =
     (case real_coordinate dg c of (real_x, real_y, real_z) \<Rightarrow>
        conc[dgrid_box_index dg c := f real_x real_y real_z])"

definition RunInitializers :: "DiffusionGrid \<Rightarrow> DiffusionGrid" where
  "RunInitializers dg =
     (case num_boxes_axis dg of (nx, ny, nz) \<Rightarrow>
        (let conc =
               fold (\<lambda>f. fold (\<lambda>x. fold (\<lambda>y. fold (\<lambda>z. init_point dg f (x, y, z))
                                                    [0..<nz])
                                        [0..<ny])
                            [0..<nx])
                    (initializers dg) (c1 dg)
         in dg\<lparr>c1 := conc, c2 := conc\<rparr>))"

text \<open>Modelled from the spec: the swap of the current and the next buffer after a sweep.\<close>

definition SwapBuffers :: "DiffusionGrid \<Rightarrow> DiffusionGrid" where
  "SwapBuffers dg = dg\<lparr>c1 := c2 dg, c2 := c1 dg\<rparr>"

text \<open>
  A small diffusion grid with the initializer of \<open>DiffusionInitTest.InitBothArrays\<close>,
  which returns 0.5 everywhere, on two grid points per axis.
\<close>

definition small_dgrid :: DiffusionGrid where
  "small_dgrid =
     \<lparr>dgrid_dimensions = (0, 250, 0, 250, 0, 250), dgrid_box_length = 250,
      num_boxes_axis = (2, 2, 2), initializers = [\<lambda>x y z. 0.5],
      c1 = [], c2 = [], gradients = []\<rparr>"

section \<open>Properties of the force calculation\<close>

lemma unit_draws_const: "0 \<le> v \<Longrightarrow> v \<le> 1 \<Longrightarrow> unit_draws (\<lambda>n. v)"
  by (simp add: unit_draws_def)

lemma UniformArray3_bounds:
  assumes "unit_draws rnd"
  shows "case fst (UniformArray3 (-3) 3 rnd) of
           (f0, f1, f2) \<Rightarrow> - 3 \<le> f0 \<and> f0 \<le> 3 \<and> - 3 \<le> f1 \<and> f1 \<le> 3 \<and> - 3 \<le> f2 \<and> f2 \<le> 3"
proof -
  have "0 \<le> rnd n \<and> rnd n \<le> 1" for n
    using assms by (simp add: unit_draws_def)
  from this [of 0] this [of 1] this [of 2] show ?thesis
    by (simp add: UniformArray3_def)
qed

lemma overlap_branch_near:
  "0 \<le> delta \<Longrightarrow> dst < 0.00000001 \<Longrightarrow> overlap_branch delta dst = NearCoincident"
  by (simp add: overlap_branch_def)

lemma overlap_branch_Separated:
  "overlap_branch delta dst = Separated d \<Longrightarrow> d = dst \<and> 0.00000001 \<le> d \<and> 0 \<le> delta"
  by (auto simp: overlap_branch_def split: if_splits)

lemma ForceBetweenSpheres_by_branch:
  "ForceBetweenSpheres rnd sphere_lhs sphere_rhs =
     (case ForceBetweenSpheres_branch sphere_lhs sphere_rhs of
        NoOverlap \<Rightarrow> ((0, 0, 0), rnd)
      | NearCoincident \<Rightarrow> UniformArray3 (-3) 3 rnd
      | Separated d \<Rightarrow>
          (case position sphere_lhs of (c10, c11, c12) \<Rightarrow>
           case position sphere_rhs of (c20, c21, c22) \<Rightarrow>
             (let r1 = 0.5 * diameter sphere_lhs + additional_radius;
                  r2 = 0.5 * diameter sphere_rhs + additional_radius;
                  delta = r1 + r2 - center_distance (position sphere_lhs) (position sphere_rhs);
                  force_module = (2 * delta - sqrt ((r1 * r2) / (r1 + r2) * delta)) / d
              in ((force_module * (c10 - c20), force_module * (c11 - c21),
                   force_module * (c12 - c22)), rnd))))"
  by (cases "position sphere_lhs"; cases "position sphere_rhs")
     (simp add: ForceBetweenSpheres_def ForceBetweenSpheres_branch_def center_distance_def
        Let_def split: branch.splits)

lemma ComputeForceOfASphereOnASphere_by_branch:
  "ComputeForceOfASphereOnASphere rnd p1 r1 p2 r2 =
     (case ComputeForceOfASphereOnASphere_branch p1 r1 p2 r2 of
        NoOverlap \<Rightarrow> ((0, 0, 0, 0), rnd)
      | NearCoincident \<Rightarrow>
          (case UniformArray3 (-3) 3 rnd of ((f0, f1, f2), rnd') \<Rightarrow> ((f0, f1, f2, 0), rnd'))
      | Separated d \<Rightarrow>
          (case p1 of (c10, c11, c12) \<Rightarrow> case p2 of (c20, c21, c22) \<Rightarrow>
             (let force_module = (r1 + r2 - center_distance p1 p2) / d
              in ((force_module * (c10 - c20), force_module * (c11 - c21),
                   force_module * (c12 - c22), 0), rnd))))"
  by (cases p1; cases p2)
     (simp add: ComputeForceOfASphereOnASphere_def ComputeForceOfASphereOnASphere_branch_def
        center_distance_def Let_def split: branch.splits)

text \<open>
  C8. In both sphere-sphere routines, when the (virtually enlarged) spheres overlap
  and the centre distance is below \<open>0.00000001\<close>, the run takes the near-coincident
  branch: the result is exactly what \<open>UniformArray<3>(-3.0, 3.0)\<close> returns, each of
  its components lies in \<open>[-3, 3]\<close> for a generator with unit draws, and no division
  by the centre distance is executed. When the division branch is taken, its
  divisor is the centre distance and is at least \<open>0.00000001\<close>.
\<close>

theorem near_coincident_centers_random_kick:
  "(0 \<le> 0.5 * diameter lhs + 0.5 * diameter rhs + 3
          - center_distance (position lhs) (position rhs) \<longrightarrow>
    center_distance (position lhs) (position rhs) < 0.00000001 \<longrightarrow>
      ForceBetweenSpheres_branch lhs rhs = NearCoincident \<and>
      ForceBetweenSpheres rnd lhs rhs = UniformArray3 (-3) 3 rnd \<and>
      (unit_draws rnd \<longrightarrow>
        (case fst (ForceBetweenSpheres rnd lhs rhs) of
           (f0, f1, f2) \<Rightarrow> - 3 \<le> f0 \<and> f0 \<le> 3 \<and> - 3 \<le> f1 \<and> f1 \<le> 3 \<and> - 3 \<le> f2 \<and> f2 \<le> 3)))
   \<and> (ForceBetweenSpheres_branch lhs rhs = Separated d \<longrightarrow>
        d = center_distance (position lhs) (position rhs) \<and> 0.00000001 \<le> d)
   \<and> (0 \<le> ra + rb - center_distance pa pb \<longrightarrow>
      center_distance pa pb < 0.00000001 \<longrightarrow>
        ComputeForceOfASphereOnASphere_branch pa ra pb rb = NearCoincident \<and>
        ComputeForceOfASphereOnASphere rnd pa ra pb rb =
          (case UniformArray3 (-3) 3 rnd of ((f0, f1, f2), rnd') \<Rightarrow> ((f0, f1, f2, 0), rnd')) \<and>
        (unit_draws rnd \<longrightarrow>
          (case fst (ComputeForceOfASphereOnASphere rnd pa ra pb rb) of
             (f0, f1, f2, f3) \<Rightarrow>
               - 3 \<le> f0 \<and> f0 \<le> 3 \<and> - 3 \<le> f1 \<and> f1 \<le> 3 \<and> - 3 \<le> f2 \<and> f2 \<le> 3 \<and> f3 = 0)))
   \<and> (ComputeForceOfASphereOnASphere_branch pa ra pb rb = Separated d' \<longrightarrow>
        d' = center_distance pa pb \<and> 0.00000001 \<le> d')"
proof (intro conjI impI)
  assume ov: "0 \<le> 0.5 * diameter lhs + 0.5 * diameter rhs + 3
                  - center_distance (position lhs) (position rhs)"
    and near: "center_distance (position lhs) (position rhs) < 0.00000001"
  show b: "ForceBetweenSpheres_branch lhs rhs = NearCoincident"
    using ov near
    by (simp add: ForceBetweenSpheres_branch_def additional_radius_def Let_def overlap_branch_near)
  show r: "ForceBetweenSpheres rnd lhs rhs = UniformArray3 (-3) 3 rnd"
    by (simp add: ForceBetweenSpheres_by_branch b)
  assume "unit_draws rnd"
  then show "case fst (ForceBetweenSpheres rnd lhs rhs) of
       (f0, f1, f2) \<Rightarrow> - 3 \<le> f0 \<and> f0 \<le> 3 \<and> - 3 \<le> f1 \<and> f1 \<le> 3 \<and> - 3 \<le> f2 \<and> f2 \<le> 3"
    unfolding r by (rule UniformArray3_bounds)
next
  assume "ForceBetweenSpheres_branch lhs rhs = Separated d"
  then have "d = center_distance (position lhs) (position rhs) \<and> 0.00000001 \<le> d"
    by (auto simp: ForceBetweenSpheres_branch_def Let_def dest: overlap_branch_Separated)
  then show "d = center_distance (position lhs) (position rhs)" and "0.00000001 \<le> d"
    by simp_all
next
  assume ov: "0 \<le> ra + rb - center_distance pa pb"
    and near: "center_distance pa pb < 0.00000001"
  show b: "ComputeForceOfASphereOnASphere_branch pa ra pb rb = NearCoincident"
    using ov near
    by (simp add: ComputeForceOfASphereOnASphere_branch_def Let_def overlap_branch_near)
  show r: "ComputeForceOfASphereOnASphere rnd pa ra pb rb =
      (case UniformArray3 (-3) 3 rnd of ((f0, f1, f2), rnd') \<Rightarrow> ((f0, f1, f2, 0), rnd'))"
    by (simp add: ComputeForceOfASphereOnASphere_by_branch b)
  assume "unit_draws rnd"
  from UniformArray3_bounds [OF this]
  show "case fst (ComputeForceOfASphereOnASphere rnd pa ra pb rb) of
       (f0, f1, f2, f3) \<Rightarrow>
         - 3 \<le> f0 \<and> f0 \<le> 3 \<and> - 3 \<le> f1 \<and> f1 \<le> 3 \<and> - 3 \<le> f2 \<and> f2 \<le> 3 \<and> f3 = 0"
    unfolding r by (simp add: UniformArray3_def)
next
  assume "ComputeForceOfASphereOnASphere_branch pa ra pb rb = Separated d'"
  then have "d' = center_distance pa pb \<and> 0.00000001 \<le> d'"
    by (auto simp: ComputeForceOfASphereOnASphere_branch_def Let_def
        dest: overlap_branch_Separated)
  then show "d' = center_distance pa pb" and "0.00000001 \<le> d'"
    by simp_all
qed

theorem near_coincident_centers_random_kick_witness:
  "unit_draws (\<lambda>n. 1 / 2)
   \<and> center_distance (0, 0, 0) (0, 0, 0) < 0.00000001
   \<and> ForceBetweenSpheres_branch (Cell 0 (0, 0, 0) 30) (Cell 1 (0, 0, 0) 30) = NearCoincident
   \<and> ForceBetweenSpheres (\<lambda>n. 1 / 2) (Cell 0 (0, 0, 0) 30) (Cell 1 (0, 0, 0) 30)
       = ((0, 0, 0), (\<lambda>n. 1 / 2))
   \<and> ComputeForceOfASphereOnASphere (\<lambda>n. 1 / 2) (0, 0, 0) 1 (0, 0, 0) 1
       = ((0, 0, 0, 0), (\<lambda>n. 1 / 2))
   \<and> ForceBetweenSpheres_branch (Cell 0 (0, 0, 0) 30) (Cell 1 (1, 0, 0) 30) = Separated 1
   \<and> ComputeForceOfASphereOnASphere_branch (0, 0, 0) 1 (1, 0, 0) 1 = Separated 1
   \<and> (0.00000001 :: real) \<le> 1"
proof -
  have u: "unit_draws (\<lambda>n. 1 / 2)"
    by (simp add: unit_draws_def)
  have z: "center_distance (0, 0, 0) (0, 0, 0) = 0" and o: "center_distance (0, 0, 0) (1, 0, 0) = 1"
    by (simp_all add: center_distance_def)
  have s1: "ForceBetweenSpheres_branch (Cell 0 (0, 0, 0) 30) (Cell 1 (1, 0, 0) 30) = Separated 1"
    by (simp add: ForceBetweenSpheres_branch_def Cell_def additional_radius_def o
        overlap_branch_def)
  have s2: "ComputeForceOfASphereOnASphere_branch (0, 0, 0) 1 (1, 0, 0) 1 = Separated 1"
    by (simp add: ComputeForceOfASphereOnASphere_branch_def o overlap_branch_def)
  show ?thesis
    using u z s1 s2
      near_coincident_centers_random_kick
        [where lhs = "Cell 0 (0, 0, 0) 30" and rhs = "Cell 1 (0, 0, 0) 30" and rnd = "\<lambda>n. 1 / 2"
           and d = 1 and pa = "(0, 0, 0)" and ra = 1 and pb = "(0, 0, 0)" and rb = 1 and d' = 1]
      near_coincident_centers_random_kick
        [where lhs = "Cell 0 (0, 0, 0) 30" and rhs = "Cell 1 (1, 0, 0) 30" and rnd = "\<lambda>n. 1 / 2"
           and d = 1 and pa = "(0, 0, 0)" and ra = 1 and pb = "(1, 0, 0)" and rb = 1 and d' = 1]
    by (simp add: Cell_def UniformArray3_def)
qed

text \<open>
  C10. The force on a sphere from a cylinder is the negation, component by
  component, of the first three components of the force on that cylinder from that
  sphere, computed from the same generator state; both leave the generator in the
  same state.
\<close>

theorem sphere_cylinder_force_antisymmetry:
  "fst (ForceOnASphereFromACylinder rnd s c) =
     (case fst (ForceOnACylinderFromASphere rnd c s) of (t0, t1, t2, t3) \<Rightarrow> (- t0, - t1, - t2))
   \<and> snd (ForceOnASphereFromACylinder rnd s c) = snd (ForceOnACylinderFromASphere rnd c s)"
  by (simp add: ForceOnASphereFromACylinder_def neg3_of4_def split: prod.splits)

text \<open>
  C4. \<open>Calculate\<close> returns the result of exactly one of the four pairwise force
  functions when both shapes are sphere or cylinder, the one its shape pair selects;
  for every other shape pair it ends in \<open>Log::Fatal\<close> and returns no force. A force
  is returned if and only if both shapes are sphere or cylinder.
\<close>

theorem Calculate_dispatch:
  "(shape lhs = kSphere \<and> shape rhs = kSphere \<longrightarrow>
      Calculate rnd lhs rhs = Inr (with_zero (ForceBetweenSpheres rnd lhs rhs)))
   \<and> (shape lhs = kSphere \<and> shape rhs = kCylinder \<longrightarrow>
      Calculate rnd lhs rhs = Inr (with_zero (ForceOnASphereFromACylinder rnd lhs rhs)))
   \<and> (shape lhs = kCylinder \<and> shape rhs = kSphere \<longrightarrow>
      Calculate rnd lhs rhs = Inr (ForceOnACylinderFromASphere rnd lhs rhs))
   \<and> (shape lhs = kCylinder \<and> shape rhs = kCylinder \<longrightarrow>
      Calculate rnd lhs rhs = Inr (ForceBetweenCylinders rnd lhs rhs))
   \<and> (shape lhs \<notin> {kSphere, kCylinder} \<or> shape rhs \<notin> {kSphere, kCylinder} \<longrightarrow>
      Calculate rnd lhs rhs =
        Inl (Fatal ''InteractionForce''
               ''InteractionForce only supports sphere or cylinder shapes''))
   \<and> ((\<exists>force. Calculate rnd lhs rhs = Inr force) \<longleftrightarrow>
        shape lhs \<in> {kSphere, kCylinder} \<and> shape rhs \<in> {kSphere, kCylinder})"
  by (cases "shape lhs"; cases "shape rhs") (simp_all add: Calculate_def Log_Fatal_def)

theorem Calculate_dispatch_witness:
  "(let sphere = Cell 0 (0, 0, 0) 30;
        cylinder = (Cell 1 (100, 0, 0) 2)\<lparr>shape := kCylinder\<rparr>;
        other = (Cell 2 (0, 0, 0) 30)\<lparr>shape := kOtherShape 2\<rparr>;
        rnd = (\<lambda>n. 1 / 2)
    in shape sphere = kSphere \<and> shape cylinder = kCylinder \<and> shape other \<notin> {kSphere, kCylinder}
       \<and> Calculate rnd sphere sphere = Inr (with_zero (ForceBetweenSpheres rnd sphere sphere))
       \<and> Calculate rnd sphere cylinder
            = Inr (with_zero (ForceOnASphereFromACylinder rnd sphere cylinder))
       \<and> Calculate rnd cylinder sphere = Inr (ForceOnACylinderFromASphere rnd cylinder sphere)
       \<and> Calculate rnd cylinder cylinder = Inr (ForceBetweenCylinders rnd cylinder cylinder)
       \<and> Calculate rnd other sphere =
            Inl (Fatal ''InteractionForce''
                   ''InteractionForce only supports sphere or cylinder shapes'')
       \<and> Calculate rnd cylinder other =
            Inl (Fatal ''InteractionForce''
                   ''InteractionForce only supports sphere or cylinder shapes'')
       \<and> Calculate rnd sphere sphere = Inr ((0, 0, 0, 0), (\<lambda>n. 1 / 2)))"
proof -
  define sphere where "sphere = Cell 0 (0, 0, 0) 30"
  define cylinder where "cylinder = (Cell 1 (100, 0, 0) 2)\<lparr>shape := kCylinder\<rparr>"
  define other where "other = (Cell 2 (0, 0, 0) 30)\<lparr>shape := kOtherShape 2\<rparr>"
  define rnd :: Random where "rnd = (\<lambda>n. 1 / 2)"
  have sh: "shape sphere = kSphere" "shape cylinder = kCylinder" "shape other = kOtherShape 2"
    by (simp_all add: sphere_def cylinder_def other_def Cell_def)
  have kick: "with_zero (ForceBetweenSpheres rnd sphere sphere) = ((0, 0, 0, 0), (\<lambda>n. 1 / 2))"
    by (simp add: ForceBetweenSpheres_def sphere_def Cell_def additional_radius_def
        overlap_branch_def UniformArray3_def with_zero_def rnd_def)
  have "shape sphere = kSphere \<and> shape cylinder = kCylinder \<and> shape other \<notin> {kSphere, kCylinder}
       \<and> Calculate rnd sphere sphere = Inr (with_zero (ForceBetweenSpheres rnd sphere sphere))
       \<and> Calculate rnd sphere cylinder
            = Inr (with_zero (ForceOnASphereFromACylinder rnd sphere cylinder))
       \<and> Calculate rnd cylinder sphere = Inr (ForceOnACylinderFromASphere rnd cylinder sphere)
       \<and> Calculate rnd cylinder cylinder = Inr (ForceBetweenCylinders rnd cylinder cylinder)
       \<and> Calculate rnd other sphere =
            Inl (Fatal ''InteractionForce''
                   ''InteractionForce only supports sphere or cylinder shapes'')
       \<and> Calculate rnd cylinder other =
            Inl (Fatal ''InteractionForce''
                   ''InteractionForce only supports sphere or cylinder shapes'')
       \<and> Calculate rnd sphere sphere = Inr ((0, 0, 0, 0), (\<lambda>n. 1 / 2))"
    using sh kick
      Calculate_dispatch [of sphere sphere rnd]
      Calculate_dispatch [of sphere cylinder rnd]
      Calculate_dispatch [of cylinder sphere rnd]
      Calculate_dispatch [of cylinder cylinder rnd]
      Calculate_dispatch [of other sphere rnd]
      Calculate_dispatch [of cylinder other rnd]
    by simp
  then show ?thesis
    unfolding sphere_def cylinder_def other_def rnd_def Let_def .
qed

section \<open>Properties of DefineSubstance\<close>

text \<open>
  C3. \<open>DefineSubstance\<close> never aborts and always registers exactly one new grid.
  With method \<open>runge-kutta\<close> and a nonzero decay constant it logs one warning and
  registers a Runge-Kutta grid whose decay is zero. With a method name that is
  neither \<open>euler\<close> nor \<open>runge-kutta\<close> it logs one error and registers an Euler grid
  built from the given arguments.
\<close>

theorem DefineSubstance_downgrades:
  "(\<exists>sim' dgrid. DefineSubstance sim sid name dc decay res = Inr sim' \<and>
       continua sim' = continua sim @ [dgrid] \<and>
       substance_id dgrid = sid \<and> substance_name dgrid = name \<and>
       diffusion_coeff dgrid = dc \<and> resolution dgrid = res)
   \<and> (diffusion_method sim = ''runge-kutta'' \<and> decay \<noteq> 0 \<longrightarrow>
        DefineSubstance sim sid name dc decay res =
          Inr (sim\<lparr>continua := continua sim @ [RungeKuttaGrid sid name dc res],
                   logged := logged sim @ [Warning ''ModelInitializer::DefineSubstance''
                     ''RungeKuttaGrid does not support a decay constant. Using 0.'']\<rparr>) \<and>
        decay_constant (RungeKuttaGrid sid name dc res) = 0 \<and>
        grid_class (RungeKuttaGrid sid name dc res) = RungeKuttaGridClass)
   \<and> (diffusion_method sim \<noteq> ''euler'' \<and> diffusion_method sim \<noteq> ''runge-kutta'' \<longrightarrow>
        (\<exists>msg. DefineSubstance sim sid name dc decay res =
          Inr (sim\<lparr>continua := continua sim @ [EulerGrid sid name dc decay res],
                   logged := logged sim @ [Error ''ModelInitializer::DefineSubstance'' msg]\<rparr>)) \<and>
        decay_constant (EulerGrid sid name dc decay res) = decay \<and>
        grid_class (EulerGrid sid name dc decay res) = EulerGridClass)"
  by (cases sim)
     (simp add: DefineSubstance_def AddContinuum_def Log_Warning_def Log_Error_def
        EulerGrid_def RungeKuttaGrid_def Let_def)

theorem DefineSubstance_downgrades_witness:
  "''runge-kutta'' = ''runge-kutta'' \<and> (1 / 10 :: real) \<noteq> 0
   \<and> ''heun'' \<noteq> ''euler'' \<and> ''heun'' \<noteq> ''runge-kutta''
   \<and> DefineSubstance \<lparr>diffusion_method = ''runge-kutta'', continua = [], logged = []\<rparr>
         0 ''Substance'' (1 / 2) (1 / 10) 26 =
       Inr \<lparr>diffusion_method = ''runge-kutta'',
            continua = [\<lparr>grid_class = RungeKuttaGridClass, substance_id = 0,
                          substance_name = ''Substance'', diffusion_coeff = 1 / 2,
                          decay_constant = 0, resolution = 26\<rparr>],
            logged = [Warning ''ModelInitializer::DefineSubstance''
                        ''RungeKuttaGrid does not support a decay constant. Using 0.'']\<rparr>
   \<and> (\<exists>msg. DefineSubstance \<lparr>diffusion_method = ''heun'', continua = [], logged = []\<rparr>
         0 ''Substance'' (1 / 2) (1 / 10) 26 =
       Inr \<lparr>diffusion_method = ''heun'',
            continua = [\<lparr>grid_class = EulerGridClass, substance_id = 0,
                          substance_name = ''Substance'', diffusion_coeff = 1 / 2,
                          decay_constant = 1 / 10, resolution = 26\<rparr>],
            logged = [Error ''ModelInitializer::DefineSubstance'' msg]\<rparr>)"
  using
    DefineSubstance_downgrades
      [of "\<lparr>diffusion_method = ''runge-kutta'', continua = [], logged = []\<rparr>"
          0 "''Substance''" "1 / 2" "1 / 10" 26]
    DefineSubstance_downgrades
      [of "\<lparr>diffusion_method = ''heun'', continua = [], logged = []\<rparr>"
          0 "''Substance''" "1 / 2" "1 / 10" 26]
  by (simp add: RungeKuttaGrid_def EulerGrid_def)

section \<open>Properties of the execution context\<close>

lemma fold_push_back: "fold (\<lambda>sim_object r. push_back r sim_object) new rm = rm @ new"
  by (induction new arbitrary: rm) (simp_all add: push_back_def)

lemma fold_Remove:
  "fold (\<lambda>u r. Remove r u) us rm = filter (\<lambda>so. uid so \<notin> set us) rm"
proof (induction us arbitrary: rm)
  case Nil
  show ?case by simp
next
  case (Cons u us)
  have "filter (\<lambda>so. uid so \<notin> set us) (Remove rm u) = filter (\<lambda>so. uid so \<notin> set (u # us)) rm"
    by (induction rm) (auto simp: Remove_def)
  with Cons show ?case by simp
qed

lemma TearDownIteration_eq:
  "TearDownIteration (ctxt, rm) =
     (ctxt\<lparr>new_sim_objects := [], remove_uids := []\<rparr>,
      filter (\<lambda>so. uid so \<notin> set (remove_uids ctxt)) (rm @ new_sim_objects ctxt))"
  by (simp add: TearDownIteration_def Let_def fold_push_back fold_Remove)

text \<open>
  C2. The commit first appends every staged agent to the authoritative collection and
  then removes every identifier of the pending-removal list from the result, and it
  leaves both staging structures empty. Hence no agent with a pending-removed
  identifier is in the collection after the commit, also when it was staged in the
  same step, and every agent of the collection or of the staging area whose
  identifier is not pending removal is in the collection afterwards, the
  collection's own agents first and in their old order.
\<close>

theorem TearDownIteration_commits:
  "snd (TearDownIteration (ctxt, rm)) =
      fold (\<lambda>u r. Remove r u) (remove_uids ctxt)
        (fold (\<lambda>so r. push_back r so) (new_sim_objects ctxt) rm)
   \<and> snd (TearDownIteration (ctxt, rm)) =
      filter (\<lambda>so. uid so \<notin> set (remove_uids ctxt)) rm @
      filter (\<lambda>so. uid so \<notin> set (remove_uids ctxt)) (new_sim_objects ctxt)
   \<and> new_sim_objects (fst (TearDownIteration (ctxt, rm))) = []
   \<and> remove_uids (fst (TearDownIteration (ctxt, rm))) = []
   \<and> (\<forall>u \<in> set (remove_uids ctxt). \<not> Contains (snd (TearDownIteration (ctxt, rm))) u)
   \<and> (\<forall>so \<in> set rm \<union> set (new_sim_objects ctxt).
        uid so \<notin> set (remove_uids ctxt) \<longrightarrow> so \<in> set (snd (TearDownIteration (ctxt, rm))))
   \<and> set (snd (TearDownIteration (ctxt, rm))) \<subseteq> set rm \<union> set (new_sim_objects ctxt)"
  by (auto simp: TearDownIteration_eq fold_push_back fold_Remove Contains_def)

theorem TearDownIteration_commits_witness:
  "(let a = Cell 0 (0, 0, 0) 30; b = Cell 1 (20, 0, 0) 30;
        c = Cell 2 (40, 0, 0) 30; d = Cell 3 (60, 0, 0) 30;
        ctxt = \<lparr>remove_uids = [1, 3], new_sim_objects = [c, d]\<rparr>
    in 1 \<in> set (remove_uids ctxt) \<and> 3 \<in> set (remove_uids ctxt)
       \<and> a \<in> set [a, b] \<union> set (new_sim_objects ctxt) \<and> uid a \<notin> set (remove_uids ctxt)
       \<and> c \<in> set [a, b] \<union> set (new_sim_objects ctxt) \<and> uid c \<notin> set (remove_uids ctxt)
       \<and> snd (TearDownIteration (ctxt, [a, b])) = [a, c]
       \<and> fst (TearDownIteration (ctxt, [a, b])) = \<lparr>remove_uids = [], new_sim_objects = []\<rparr>
       \<and> \<not> Contains (snd (TearDownIteration (ctxt, [a, b]))) 1
       \<and> \<not> Contains (snd (TearDownIteration (ctxt, [a, b]))) 3
       \<and> a \<in> set (snd (TearDownIteration (ctxt, [a, b])))
       \<and> c \<in> set (snd (TearDownIteration (ctxt, [a, b]))))"
  using TearDownIteration_commits
    [of "\<lparr>remove_uids = [1, 3], new_sim_objects = [Cell 2 (40, 0, 0) 30, Cell 3 (60, 0, 0) 30]\<rparr>"
        "[Cell 0 (0, 0, 0) 30, Cell 1 (20, 0, 0) 30]"]
  by (simp add: Let_def Cell_def TearDownIteration_eq Contains_def push_back_def Remove_def)

section \<open>Properties of the uniform grid\<close>

subsection \<open>Box coordinates along one axis, and the flattening\<close>

lemma num_boxes_pos: "0 < num_boxes lo hi len"
  by (simp add: num_boxes_def)

lemma box_coordinate_less: "0 < n \<Longrightarrow> box_coordinate lo len n p < n"
  by (auto simp: box_coordinate_def Let_def)

lemma floor_shifted_quotient:
  fixes p :: real and lo len :: int
  assumes "0 < len"
  shows "real_of_int (lo + \<lfloor>(p - real_of_int lo) / real_of_int len\<rfloor> * len) \<le> p"
    and "p < real_of_int (lo + (\<lfloor>(p - real_of_int lo) / real_of_int len\<rfloor> + 1) * len)"
proof -
  let ?q = "(p - real_of_int lo) / real_of_int len"
  have l: "0 < real_of_int len" using assms by simp
  have q: "?q * real_of_int len = p - real_of_int lo" using l by simp
  have "real_of_int \<lfloor>?q\<rfloor> \<le> ?q" by (rule of_int_floor_le)
  then have "real_of_int \<lfloor>?q\<rfloor> * real_of_int len \<le> ?q * real_of_int len"
    using l by (intro mult_right_mono) simp_all
  then have "real_of_int \<lfloor>?q\<rfloor> * real_of_int len \<le> p - real_of_int lo"
    unfolding q .
  then show "real_of_int (lo + \<lfloor>?q\<rfloor> * len) \<le> p" by simp
  have "?q < real_of_int \<lfloor>?q\<rfloor> + 1" by linarith
  then have "?q * real_of_int len < (real_of_int \<lfloor>?q\<rfloor> + 1) * real_of_int len"
    using l by (intro mult_strict_right_mono) simp_all
  then have "p - real_of_int lo < (real_of_int \<lfloor>?q\<rfloor> + 1) * real_of_int len"
    unfolding q .
  then show "p < real_of_int (lo + (\<lfloor>?q\<rfloor> + 1) * len)" by simp
qed

lemma floor_quotient_eq:
  fixes p :: real and lo len k :: int
  assumes "0 < len" and "real_of_int (lo + k * len) \<le> p" and "p < real_of_int (lo + (k + 1) * len)"
  shows "\<lfloor>(p - real_of_int lo) / real_of_int len\<rfloor> = k"
proof (rule floor_unique)
  have l: "0 < real_of_int len" using assms(1) by simp
  from assms(2) have "real_of_int k * real_of_int len \<le> p - real_of_int lo" by simp
  then show "real_of_int k \<le> (p - real_of_int lo) / real_of_int len"
    using l by (simp add: pos_le_divide_eq)
  from assms(3) have "p - real_of_int lo < (real_of_int k + 1) * real_of_int len" by simp
  then show "(p - real_of_int lo) / real_of_int len < real_of_int k + 1"
    using l by (simp add: pos_divide_less_eq)
qed

lemma box_coordinate_in_box:
  assumes "0 < len" and "k < n" and "in_box_axis lo len k p"
  shows "box_coordinate lo len n p = k"
proof -
  have "\<lfloor>(p - real_of_int lo) / real_of_int len\<rfloor> = int k"
    using assms(1,3) by (intro floor_quotient_eq) (simp_all add: in_box_axis_def)
  then show ?thesis
    using assms(2) by (simp add: box_coordinate_def)
qed

lemma clamp_near:
  fixes c c' :: int
  assumes "0 < n" and "c \<le> c' + 1"
  shows "(if c < 0 then 0 else if int n \<le> c then n - 1 else nat c)
         \<le> (if c' < 0 then 0 else if int n \<le> c' then n - 1 else nat c') + 1"
  using assms by auto

lemma box_coordinate_near:
  assumes "0 < len" and "0 < n" and "\<bar>p - p'\<bar> \<le> real_of_int len"
  shows "box_coordinate lo len n p \<le> box_coordinate lo len n p' + 1"
proof -
  let ?c = "\<lfloor>(p - real_of_int lo) / real_of_int len\<rfloor>"
  let ?c' = "\<lfloor>(p' - real_of_int lo) / real_of_int len\<rfloor>"
  have l: "0 < real_of_int len" using assms(1) by simp
  have "(p - real_of_int lo) / real_of_int len \<le> (p' - real_of_int lo) / real_of_int len + 1"
    using assms(3) l by (simp add: field_simps)
  then have "?c \<le> \<lfloor>(p' - real_of_int lo) / real_of_int len + 1\<rfloor>"
    by (rule floor_mono)
  then have "?c \<le> ?c' + 1" by simp
  with assms(2) show ?thesis
    unfolding box_coordinate_def Let_def by (rule clamp_near)
qed

lemma flatten_less:
  fixes x y z nx ny nz :: nat
  assumes "x < nx" "y < ny" "z < nz"
  shows "x + y * nx + z * nx * ny < nx * ny * nz"
proof -
  have "x + y * nx < nx * ny"
  proof -
    have "x + y * nx < nx + y * nx" using assms(1) by simp
    also have "\<dots> = nx * (y + 1)" by simp
    also have "\<dots> \<le> nx * ny" using assms(2) by (intro mult_le_mono2) simp
    finally show ?thesis .
  qed
  then have "x + y * nx + z * nx * ny < nx * ny + z * (nx * ny)" by simp
  also have "\<dots> = (nx * ny) * (z + 1)" by simp
  also have "\<dots> \<le> (nx * ny) * nz" using assms(3) by (intro mult_le_mono2) simp
  finally show ?thesis by simp
qed

lemma unflatten:
  fixes x y z nx ny :: nat
  assumes "x < nx" "y < ny"
  shows "(x + y * nx + z * nx * ny) mod (nx * ny) mod nx = x"
    and "(x + y * nx + z * nx * ny) mod (nx * ny) div nx = y"
    and "(x + y * nx + z * nx * ny) div (nx * ny) = z"
proof -
  have xy: "x + y * nx < nx * ny"
  proof -
    have "x + y * nx < nx + y * nx" using assms(1) by simp
    also have "\<dots> = nx * (y + 1)" by simp
    also have "\<dots> \<le> nx * ny" using assms(2) by (intro mult_le_mono2) simp
    finally show ?thesis .
  qed
  have e: "x + y * nx + z * nx * ny = (x + y * nx) + z * (nx * ny)" by simp
  have m: "(x + y * nx + z * nx * ny) mod (nx * ny) = x + y * nx"
    unfolding e using xy by simp
  show "(x + y * nx + z * nx * ny) mod (nx * ny) mod nx = x"
    unfolding m using assms(1) by simp
  show "(x + y * nx + z * nx * ny) mod (nx * ny) div nx = y"
    unfolding m using assms(1) by simp
  have "nx * ny \<noteq> 0" using assms by simp
  then show "(x + y * nx + z * nx * ny) div (nx * ny) = z"
    unfolding e using xy by simp
qed


subsection \<open>Round trip of box indices\<close>

lemma PositionToBoxCoordinates_in_box:
  assumes "0 < box_length g" and "GetNumBoxesAxis g = (nx, ny, nz)"
    and "x < nx" "y < ny" "z < nz" and "InBox g (x, y, z) pos"
  shows "PositionToBoxCoordinates g pos = (x, y, z)"
proof -
  obtain x0 x1 y0 y1 z0 z1 where d: "grid_dimensions g = (x0, x1, y0, y1, z0, z1)"
    by (cases "grid_dimensions g")
  obtain px py pz where p: "pos = (px, py, pz)"
    by (cases pos)
  from assms(6) have
    "in_box_axis x0 (box_length g) x px"
    "in_box_axis y0 (box_length g) y py"
    "in_box_axis z0 (box_length g) z pz"
    by (simp_all add: InBox_def d p)
  with assms(1,3,4,5) show ?thesis
    by (simp add: PositionToBoxCoordinates_def d p assms(2) box_coordinate_in_box)
qed

lemma InBox_worldPositionOf:
  assumes "0 < box_length g"
  shows "InBox g c (worldPositionOf g c)"
proof -
  obtain x0 x1 y0 y1 z0 z1 where d: "grid_dimensions g = (x0, x1, y0, y1, z0, z1)"
    by (cases "grid_dimensions g")
  obtain x y z where c: "c = (x, y, z)"
    by (cases c)
  have "lo + int k * box_length g < lo + (int k + 1) * box_length g" for lo k
    using assms by (simp add: algebra_simps)
  then show ?thesis
    by (simp add: InBox_def worldPositionOf_def d c in_box_axis_def del: of_int_add of_int_mult)
qed

text \<open>
  C6. For every box coordinate \<open>(x, y, z)\<close> within the grid's box counts,
  \<open>GetBoxCoordinates\<close> inverts the flattening \<open>x + y*nx + z*nx*ny\<close>, and the round
  trip through a world position gives the coordinate back: for the box's corner
  \<open>worldPositionOf\<close> and for every other position inside the box.
\<close>

theorem box_index_round_trip:
  "WellFormed g \<Longrightarrow> GetNumBoxesAxis g = (nx, ny, nz) \<Longrightarrow> x < nx \<Longrightarrow> y < ny \<Longrightarrow> z < nz \<Longrightarrow>
     GetBoxCoordinates g (x + y * nx + z * nx * ny) = (x, y, z)
   \<and> GetBoxIndex g (worldPositionOf g (x, y, z)) = x + y * nx + z * nx * ny
   \<and> GetBoxCoordinates g (GetBoxIndex g (worldPositionOf g (x, y, z))) = (x, y, z)
   \<and> (\<forall>pos. InBox g (x, y, z) pos \<longrightarrow> GetBoxCoordinates g (GetBoxIndex g pos) = (x, y, z))"
proof -
  assume wf: "WellFormed g" and n: "GetNumBoxesAxis g = (nx, ny, nz)"
    and b: "x < nx" "y < ny" "z < nz"
  have len: "0 < box_length g"
    using wf by (auto simp: WellFormed_def split: prod.splits)
  have inv: "GetBoxCoordinates g (x + y * nx + z * nx * ny) = (x, y, z)"
    using b by (simp add: GetBoxCoordinates_def n Let_def unflatten)
  have idx: "GetBoxIndex g pos = x + y * nx + z * nx * ny" if "InBox g (x, y, z) pos" for pos
    using PositionToBoxCoordinates_in_box [OF len n b that]
    by (simp add: GetBoxIndex_def FlattenBoxCoordinates_def n)
  show ?thesis
    using inv idx InBox_worldPositionOf [OF len] by simp
qed

lemma lattice3_axis: "GetNumBoxesAxis lattice3_grid = (4, 4, 4)"
  by (simp add: lattice3_grid_def Update_def GetNumBoxesAxis_def num_boxes_def Let_def)

lemma lattice3_WellFormed: "WellFormed lattice3_grid"
  by (simp add: lattice3_grid_def Update_def WellFormed_def Let_def)

theorem box_index_round_trip_witness:
  "WellFormed lattice3_grid \<and> GetNumBoxesAxis lattice3_grid = (4, 4, 4)
   \<and> (1::nat) < 4 \<and> (2::nat) < 4 \<and> (3::nat) < 4
   \<and> InBox lattice3_grid (1, 2, 3) (10, 45, 89)
   \<and> GetBoxCoordinates lattice3_grid 57 = (1, 2, 3)
   \<and> worldPositionOf lattice3_grid (1, 2, 3) = (0, 30, 60)
   \<and> GetBoxIndex lattice3_grid (0, 30, 60) = 57
   \<and> GetBoxCoordinates lattice3_grid (GetBoxIndex lattice3_grid (0, 30, 60)) = (1, 2, 3)
   \<and> GetBoxCoordinates lattice3_grid (GetBoxIndex lattice3_grid (10, 45, 89)) = (1, 2, 3)"
proof -
  have w: "worldPositionOf lattice3_grid (1, 2, 3) = (0, 30, 60)"
    by (simp add: worldPositionOf_def lattice3_grid_def Update_def Let_def)
  have i: "InBox lattice3_grid (1, 2, 3) (10, 45, 89)"
    by (simp add: InBox_def in_box_axis_def lattice3_grid_def Update_def Let_def)
  show ?thesis
    using box_index_round_trip [OF lattice3_WellFormed lattice3_axis, of 1 2 3] w i
      lattice3_WellFormed lattice3_axis
    by simp
qed

subsection \<open>Floor semantics of the box index\<close>

lemma num_boxes_covers:
  assumes "0 < len"
  shows "hi - lo \<le> int (num_boxes lo hi len) * len"
proof -
  let ?q = "real_of_int (hi - lo) / real_of_int len"
  have l: "0 < real_of_int len" using assms by simp
  have "?q \<le> real_of_int \<lceil>?q\<rceil>" by (rule le_of_int_ceiling)
  also have "\<dots> \<le> real_of_int (int (num_boxes lo hi len))"
    by (simp add: num_boxes_def)
  finally have "?q * real_of_int len \<le> real_of_int (int (num_boxes lo hi len)) * real_of_int len"
    using l by (intro mult_right_mono) simp_all
  then have "real_of_int (hi - lo) \<le> real_of_int (int (num_boxes lo hi len) * len)"
    using l by simp
  then show ?thesis by linarith
qed

lemma box_coordinate_floor:
  fixes p :: real
  assumes len: "0 < len" and p: "real_of_int lo \<le> p" "p \<le> real_of_int hi"
  defines "n \<equiv> num_boxes lo hi len"
  defines "k \<equiv> box_coordinate lo len n p"
  shows "k < n"
    and "real_of_int (lo + int k * len) \<le> p"
    and "p < real_of_int (lo + (int k + 1) * len) \<or> (p = real_of_int hi \<and> k = n - 1)"
proof -
  let ?c = "\<lfloor>(p - real_of_int lo) / real_of_int len\<rfloor>"
  have n: "0 < n" by (simp add: n_def num_boxes_pos)
  show "k < n" unfolding k_def using n by (rule box_coordinate_less)
  have "0 \<le> (p - real_of_int lo) / real_of_int len"
    using len p(1) by simp
  then have c0: "0 \<le> ?c" by simp
  note fl = floor_shifted_quotient [OF len, where p = p and lo = lo]
  show "real_of_int (lo + int k * len) \<le> p"
    "p < real_of_int (lo + (int k + 1) * len) \<or> (p = real_of_int hi \<and> k = n - 1)"
  proof -
    consider (inside) "?c < int n" | (clamped) "int n \<le> ?c" by linarith
    then have "real_of_int (lo + int k * len) \<le> p \<and>
      (p < real_of_int (lo + (int k + 1) * len) \<or> (p = real_of_int hi \<and> k = n - 1))"
    proof cases
      case inside
      then have "int k = ?c"
        using c0 by (simp add: k_def box_coordinate_def)
      with fl show ?thesis by simp
    next
      case clamped
      then have k: "k = n - 1"
        using c0 by (simp add: k_def box_coordinate_def)
      have "int n * len \<le> ?c * len"
        using clamped len by (intro mult_right_mono) simp_all
      then have "real_of_int (lo + int n * len) \<le> real_of_int (lo + ?c * len)"
        by linarith
      also have "\<dots> \<le> p" by (rule fl(1))
      finally have up: "real_of_int (lo + int n * len) \<le> p" .
      have "hi \<le> lo + int n * len"
        using num_boxes_covers [OF len, of hi lo] by (simp add: n_def)
      then have "real_of_int hi \<le> real_of_int (lo + int n * len)"
        by linarith
      with up p(2) have eq: "p = real_of_int hi" by linarith
      have "int (n - 1) * len \<le> int n * len"
        using len by (intro mult_right_mono) simp_all
      then have "real_of_int (lo + int (n - 1) * len) \<le> real_of_int (lo + int n * len)"
        by linarith
      with up have "real_of_int (lo + int (n - 1) * len) \<le> p" by linarith
      with eq k show ?thesis by simp
    qed
    then show "real_of_int (lo + int k * len) \<le> p"
      "p < real_of_int (lo + (int k + 1) * len) \<or> (p = real_of_int hi \<and> k = n - 1)"
      by simp_all
  qed
qed

lemma GetBoxCoordinates_GetBoxIndex:
  "GetBoxCoordinates g (GetBoxIndex g pos) = PositionToBoxCoordinates g pos"
proof -
  obtain x0 x1 y0 y1 z0 z1 where d: "grid_dimensions g = (x0, x1, y0, y1, z0, z1)"
    by (cases "grid_dimensions g")
  obtain px py pz where p: "pos = (px, py, pz)"
    by (cases pos)
  obtain nx ny nz where n: "GetNumBoxesAxis g = (nx, ny, nz)"
    by (cases "GetNumBoxesAxis g")
  have "0 < nx" "0 < ny" "0 < nz"
    using n by (auto simp: GetNumBoxesAxis_def d num_boxes_pos)
  then show ?thesis
    by (simp add: GetBoxCoordinates_def GetBoxIndex_def FlattenBoxCoordinates_def
        PositionToBoxCoordinates_def d p n Let_def unflatten box_coordinate_less)
qed

lemma GetBoxIndex_less: "GetBoxIndex g pos < GetNumBoxes g"
proof -
  obtain x0 x1 y0 y1 z0 z1 where d: "grid_dimensions g = (x0, x1, y0, y1, z0, z1)"
    by (cases "grid_dimensions g")
  obtain px py pz where p: "pos = (px, py, pz)"
    by (cases pos)
  obtain nx ny nz where n: "GetNumBoxesAxis g = (nx, ny, nz)"
    by (cases "GetNumBoxesAxis g")
  have "0 < nx" "0 < ny" "0 < nz"
    using n by (auto simp: GetNumBoxesAxis_def d num_boxes_pos)
  then show ?thesis
    by (simp add: GetNumBoxes_def GetBoxIndex_def FlattenBoxCoordinates_def
        PositionToBoxCoordinates_def d p n flatten_less box_coordinate_less)
qed

lemma lattice3_index_0: "GetBoxIndex lattice3_grid (0, 0, 0) = 21"
  by (simp add: GetBoxIndex_def FlattenBoxCoordinates_def PositionToBoxCoordinates_def
      lattice3_axis box_coordinate_def Let_def)
     (simp add: lattice3_grid_def Update_def)

lemma lattice3_index_1:
  "GetBoxIndex lattice3_grid (1 / 10 ^ 15, 1 / 10 ^ 15, 1 / 10 ^ 15) = 21"
  by (simp add: GetBoxIndex_def FlattenBoxCoordinates_def PositionToBoxCoordinates_def
      lattice3_axis box_coordinate_def Let_def)
     (simp add: lattice3_grid_def Update_def)

lemma lattice3_index_2:
  "GetBoxIndex lattice3_grid (- (1 / 10 ^ 15), 1 / 10 ^ 15, 1 / 10 ^ 15) = 20"
  by (simp add: GetBoxIndex_def FlattenBoxCoordinates_def PositionToBoxCoordinates_def
      lattice3_axis box_coordinate_def Let_def)
     (simp add: lattice3_grid_def Update_def)

lemma lattice3_coordinates:
  "GetBoxCoordinates lattice3_grid 21 = (1, 1, 1)" "GetBoxCoordinates lattice3_grid 20 = (0, 1, 1)"
  by (simp_all add: GetBoxCoordinates_def lattice3_axis Let_def)

lemma box_coordinate_on_face:
  assumes "0 < len" and "k < n"
  shows "box_coordinate lo len n (real_of_int (lo + int k * len)) = k"
proof -
  have "lo + int k * len < lo + (int k + 1) * len"
    using assms(1) by (simp add: algebra_simps)
  then have "in_box_axis lo len k (real_of_int (lo + int k * len))"
    unfolding in_box_axis_def by (simp del: of_int_add of_int_mult)
  with assms show ?thesis
    by (rule box_coordinate_in_box)
qed

text \<open>
  C5 as stated, with a position on a box boundary resolved toward the
  lower-coordinate box, fails. In the grid of the lattice with three cells per
  dimension the plane \<open>x = 0\<close> is the face shared by the boxes with x coordinate 0 and
  1. The positions \<open>(0, 10, 10)\<close> and \<open>(0, 0, 0)\<close> lie on it and resolve to box 21,
  which is \<open>(1, 1, 1)\<close>, the box of higher x coordinate; box 20, which is \<open>(0, 1, 1)\<close>,
  receives \<open>(-1, 10, 10)\<close>, not them.
\<close>

theorem boundary_position_resolves_upward:
  "real_of_int (-30 + int 1 * box_length lattice3_grid) = 0
   \<and> GetBoxIndex lattice3_grid (0, 10, 10) = 21
   \<and> GetBoxIndex lattice3_grid (0, 0, 0) = 21
   \<and> GetBoxIndex lattice3_grid (-1, 10, 10) = 20
   \<and> GetBoxCoordinates lattice3_grid 21 = (1, 1, 1)
   \<and> GetBoxCoordinates lattice3_grid 20 = (0, 1, 1)
   \<and> GetBoxIndex lattice3_grid (0, 10, 10) \<noteq> 20
   \<and> GetBoxIndex lattice3_grid (0, 0, 0) \<noteq> 20"
proof -
  have l: "box_length lattice3_grid = 30" "grid_dimensions lattice3_grid = (-30, 90, -30, 90, -30, 90)"
    by (simp_all add: lattice3_grid_def Update_def Let_def)
  have a: "GetBoxIndex lattice3_grid (0, 10, 10) = 21"
    and b: "GetBoxIndex lattice3_grid (-1, 10, 10) = 20"
    by (simp_all add: GetBoxIndex_def FlattenBoxCoordinates_def PositionToBoxCoordinates_def
        lattice3_axis box_coordinate_def Let_def l)
  show ?thesis
    by (simp add: l a b lattice3_index_0 lattice3_coordinates)
qed

text \<open>
  C5, as amended. \<open>GetBoxIndex\<close> is a function of the grid and the position. For a
  position within the bounding box it follows floor semantics: the scaled coordinate
  is rounded down, so along each axis the position is at or above the lower face of
  its box and strictly below the upper face. A position exactly on a face shared by
  two boxes therefore resolves to the box that starts at that face, the one of
  higher coordinate. Only a position on the upper face of the bounding box, which
  rounding down alone would send to a box beyond the grid, is resolved to the
  lower-coordinate box next to it, the last one. The index is always below the
  number of boxes. In the grid of the lattice with three cells per dimension,
  \<open>(0, 0, 0)\<close> and \<open>(1e-15, 1e-15, 1e-15)\<close> both map to box 21, which is \<open>(1, 1, 1)\<close>,
  and \<open>(-1e-15, 1e-15, 1e-15)\<close> maps to box 20, which is \<open>(0, 1, 1)\<close>, the adjacent box
  with the next-lower x coordinate.
\<close>

theorem GetBoxIndex_floor_semantics:
  "(WellFormed g \<longrightarrow> InBounds g (px, py, pz) \<longrightarrow>
    grid_dimensions g = (x0, x1, y0, y1, z0, z1) \<longrightarrow> GetNumBoxesAxis g = (nx, ny, nz) \<longrightarrow>
    GetBoxCoordinates g (GetBoxIndex g (px, py, pz)) = (x, y, z) \<longrightarrow>
      GetBoxIndex g (px, py, pz) < nx * ny * nz
      \<and> x < nx \<and> y < ny \<and> z < nz
      \<and> real_of_int (x0 + int x * box_length g) \<le> px
      \<and> (px < real_of_int (x0 + (int x + 1) * box_length g) \<or> px = real_of_int x1 \<and> x = nx - 1)
      \<and> real_of_int (y0 + int y * box_length g) \<le> py
      \<and> (py < real_of_int (y0 + (int y + 1) * box_length g) \<or> py = real_of_int y1 \<and> y = ny - 1)
      \<and> real_of_int (z0 + int z * box_length g) \<le> pz
      \<and> (pz < real_of_int (z0 + (int z + 1) * box_length g) \<or> pz = real_of_int z1 \<and> z = nz - 1))
   \<and> (WellFormed g \<longrightarrow>
      grid_dimensions g = (x0, x1, y0, y1, z0, z1) \<longrightarrow> GetNumBoxesAxis g = (nx, ny, nz) \<longrightarrow>
        (k < nx \<longrightarrow>
           fst (GetBoxCoordinates g
                  (GetBoxIndex g (real_of_int (x0 + int k * box_length g), qy, qz))) = k)
        \<and> (k < ny \<longrightarrow>
           fst (snd (GetBoxCoordinates g
                  (GetBoxIndex g (qx, real_of_int (y0 + int k * box_length g), qz)))) = k)
        \<and> (k < nz \<longrightarrow>
           snd (snd (GetBoxCoordinates g
                  (GetBoxIndex g (qx, qy, real_of_int (z0 + int k * box_length g))))) = k))
   \<and> GetBoxIndex lattice3_grid (0, 0, 0) = 21
   \<and> GetBoxIndex lattice3_grid (1 / 10 ^ 15, 1 / 10 ^ 15, 1 / 10 ^ 15) = 21
   \<and> GetBoxIndex lattice3_grid (- (1 / 10 ^ 15), 1 / 10 ^ 15, 1 / 10 ^ 15) = 20
   \<and> GetBoxCoordinates lattice3_grid 21 = (1, 1, 1)
   \<and> GetBoxCoordinates lattice3_grid 20 = (0, 1, 1)"
proof (intro conjI impI lattice3_index_0 lattice3_index_1 lattice3_index_2 lattice3_coordinates)
  assume wf: "WellFormed g" and ib: "InBounds g (px, py, pz)"
    and d: "grid_dimensions g = (x0, x1, y0, y1, z0, z1)"
    and n: "GetNumBoxesAxis g = (nx, ny, nz)"
    and c: "GetBoxCoordinates g (GetBoxIndex g (px, py, pz)) = (x, y, z)"
  have len: "0 < box_length g"
    using wf by (simp add: WellFormed_def d)
  have nn: "nx = num_boxes x0 x1 (box_length g)" "ny = num_boxes y0 y1 (box_length g)"
    "nz = num_boxes z0 z1 (box_length g)"
    using n by (simp_all add: GetNumBoxesAxis_def d)
  have k: "x = box_coordinate x0 (box_length g) nx px" "y = box_coordinate y0 (box_length g) ny py"
    "z = box_coordinate z0 (box_length g) nz pz"
    using c by (simp_all add: GetBoxCoordinates_GetBoxIndex PositionToBoxCoordinates_def d n)
  have b: "real_of_int x0 \<le> px" "px \<le> real_of_int x1" "real_of_int y0 \<le> py" "py \<le> real_of_int y1"
    "real_of_int z0 \<le> pz" "pz \<le> real_of_int z1"
    using ib by (simp_all add: InBounds_def d)
  show "GetBoxIndex g (px, py, pz) < nx * ny * nz"
    using GetBoxIndex_less [of g "(px, py, pz)"] by (simp add: GetNumBoxes_def n)
  show "x < nx" "y < ny" "z < nz"
    unfolding k nn by (rule box_coordinate_floor(1) [OF len] b)+
  show "real_of_int (x0 + int x * box_length g) \<le> px"
    unfolding k nn by (rule box_coordinate_floor(2) [OF len b(1,2)])
  show "real_of_int (y0 + int y * box_length g) \<le> py"
    unfolding k nn by (rule box_coordinate_floor(2) [OF len b(3,4)])
  show "real_of_int (z0 + int z * box_length g) \<le> pz"
    unfolding k nn by (rule box_coordinate_floor(2) [OF len b(5,6)])
  show "px < real_of_int (x0 + (int x + 1) * box_length g) \<or> px = real_of_int x1 \<and> x = nx - 1"
    unfolding k nn by (rule box_coordinate_floor(3) [OF len b(1,2)])
  show "py < real_of_int (y0 + (int y + 1) * box_length g) \<or> py = real_of_int y1 \<and> y = ny - 1"
    unfolding k nn by (rule box_coordinate_floor(3) [OF len b(3,4)])
  show "pz < real_of_int (z0 + (int z + 1) * box_length g) \<or> pz = real_of_int z1 \<and> z = nz - 1"
    unfolding k nn by (rule box_coordinate_floor(3) [OF len b(5,6)])
next
  assume wf: "WellFormed g" and d: "grid_dimensions g = (x0, x1, y0, y1, z0, z1)"
    and n: "GetNumBoxesAxis g = (nx, ny, nz)"
  have len: "0 < box_length g"
    using wf by (simp add: WellFormed_def d)
  {
    assume "k < nx"
    with len show "fst (GetBoxCoordinates g
        (GetBoxIndex g (real_of_int (x0 + int k * box_length g), qy, qz))) = k"
      by (simp add: GetBoxCoordinates_GetBoxIndex PositionToBoxCoordinates_def d n
          box_coordinate_on_face del: of_int_add of_int_mult)
  }
  {
    assume "k < ny"
    with len show "fst (snd (GetBoxCoordinates g
        (GetBoxIndex g (qx, real_of_int (y0 + int k * box_length g), qz)))) = k"
      by (simp add: GetBoxCoordinates_GetBoxIndex PositionToBoxCoordinates_def d n
          box_coordinate_on_face del: of_int_add of_int_mult)
  }
  {
    assume "k < nz"
    with len show "snd (snd (GetBoxCoordinates g
        (GetBoxIndex g (qx, qy, real_of_int (z0 + int k * box_length g))))) = k"
      by (simp add: GetBoxCoordinates_GetBoxIndex PositionToBoxCoordinates_def d n
          box_coordinate_on_face del: of_int_add of_int_mult)
  }
qed


theorem GetBoxIndex_floor_semantics_witness:
  "WellFormed lattice3_grid \<and> InBounds lattice3_grid (0, 90, 45)
   \<and> grid_dimensions lattice3_grid = (-30, 90, -30, 90, -30, 90)
   \<and> GetNumBoxesAxis lattice3_grid = (4, 4, 4)
   \<and> GetBoxCoordinates lattice3_grid (GetBoxIndex lattice3_grid (0, 90, 45)) = (1, 3, 2)
   \<and> GetBoxIndex lattice3_grid (0, 90, 45) = 45
   \<and> GetBoxIndex lattice3_grid (0, 90, 45) < 4 * 4 * 4
   \<and> real_of_int (-30 + int 1 * box_length lattice3_grid) \<le> 0
   \<and> (0::real) < real_of_int (-30 + (int 1 + 1) * box_length lattice3_grid)
   \<and> real_of_int (-30 + int 3 * box_length lattice3_grid) \<le> 90
   \<and> (90::real) = real_of_int 90 \<and> (3::nat) = 4 - 1
   \<and> (1::nat) < 4
   \<and> fst (GetBoxCoordinates lattice3_grid
            (GetBoxIndex lattice3_grid
               (real_of_int (-30 + int 1 * box_length lattice3_grid), 90, 45))) = 1
   \<and> fst (snd (GetBoxCoordinates lattice3_grid
            (GetBoxIndex lattice3_grid
               (0, real_of_int (-30 + int 1 * box_length lattice3_grid), 45)))) = 1
   \<and> snd (snd (GetBoxCoordinates lattice3_grid
            (GetBoxIndex lattice3_grid
               (0, 90, real_of_int (-30 + int 1 * box_length lattice3_grid))))) = 1"
proof -
  have d: "grid_dimensions lattice3_grid = (-30, 90, -30, 90, -30, 90)"
    and l: "box_length lattice3_grid = 30"
    by (simp_all add: lattice3_grid_def Update_def Let_def)
  have ib: "InBounds lattice3_grid (0, 90, 45)"
    by (simp add: InBounds_def d)
  have i: "GetBoxIndex lattice3_grid (0, 90, 45) = 45"
    by (simp add: GetBoxIndex_def FlattenBoxCoordinates_def PositionToBoxCoordinates_def
        lattice3_axis box_coordinate_def Let_def d l)
  have c: "GetBoxCoordinates lattice3_grid (GetBoxIndex lattice3_grid (0, 90, 45)) = (1, 3, 2)"
    by (simp add: i GetBoxCoordinates_def lattice3_axis Let_def)
  note t = GetBoxIndex_floor_semantics
      [where g = lattice3_grid and px = 0 and py = 90 and pz = 45 and nx = 4 and ny = 4
         and nz = 4 and x = 1 and y = 3 and z = 2 and k = 1 and qx = 0 and qy = 90 and qz = 45]
  have face: "(1::nat) < 4
   \<and> fst (GetBoxCoordinates lattice3_grid
            (GetBoxIndex lattice3_grid
               (real_of_int (-30 + int 1 * box_length lattice3_grid), 90, 45))) = 1
   \<and> fst (snd (GetBoxCoordinates lattice3_grid
            (GetBoxIndex lattice3_grid
               (0, real_of_int (-30 + int 1 * box_length lattice3_grid), 45)))) = 1
   \<and> snd (snd (GetBoxCoordinates lattice3_grid
            (GetBoxIndex lattice3_grid
               (0, 90, real_of_int (-30 + int 1 * box_length lattice3_grid))))) = 1"
    using t lattice3_WellFormed d lattice3_axis by simp
  have rest: "WellFormed lattice3_grid \<and> InBounds lattice3_grid (0, 90, 45)
   \<and> grid_dimensions lattice3_grid = (-30, 90, -30, 90, -30, 90)
   \<and> GetNumBoxesAxis lattice3_grid = (4, 4, 4)
   \<and> GetBoxCoordinates lattice3_grid (GetBoxIndex lattice3_grid (0, 90, 45)) = (1, 3, 2)
   \<and> GetBoxIndex lattice3_grid (0, 90, 45) = 45
   \<and> GetBoxIndex lattice3_grid (0, 90, 45) < 4 * 4 * 4
   \<and> real_of_int (-30 + int 1 * box_length lattice3_grid) \<le> 0
   \<and> (0::real) < real_of_int (-30 + (int 1 + 1) * box_length lattice3_grid)
   \<and> real_of_int (-30 + int 3 * box_length lattice3_grid) \<le> 90
   \<and> (90::real) = real_of_int 90 \<and> (3::nat) = 4 - 1"
    using t lattice3_WellFormed ib d lattice3_axis c i l
    by simp
  from rest face show ?thesis
    by blast
qed

subsection \<open>Neighbor queries\<close>

lemma squared_distance_axes:
  assumes "SquaredEuclideanDistance (a0, a1, a2) (b0, b1, b2) \<le> r2"
    and "r2 \<le> real_of_int (len * len)" and "0 < len"
  shows "\<bar>a0 - b0\<bar> \<le> real_of_int len" "\<bar>a1 - b1\<bar> \<le> real_of_int len"
    "\<bar>a2 - b2\<bar> \<le> real_of_int len"
proof -
  have s: "(a0 - b0)\<^sup>2 + (a1 - b1)\<^sup>2 + (a2 - b2)\<^sup>2 \<le> (real_of_int len)\<^sup>2"
    using assms(1,2) by (simp add: SquaredEuclideanDistance_def power2_eq_square)
  have l: "\<bar>real_of_int len\<bar> = real_of_int len" using assms(3) by simp
  have "(a0 - b0)\<^sup>2 \<le> (real_of_int len)\<^sup>2"
    using s zero_le_power2 [of "a1 - b1"] zero_le_power2 [of "a2 - b2"] by linarith
  then show "\<bar>a0 - b0\<bar> \<le> real_of_int len"
    using abs_le_square_iff [of "a0 - b0" "real_of_int len"] l by simp
  have "(a1 - b1)\<^sup>2 \<le> (real_of_int len)\<^sup>2"
    using s zero_le_power2 [of "a0 - b0"] zero_le_power2 [of "a2 - b2"] by linarith
  then show "\<bar>a1 - b1\<bar> \<le> real_of_int len"
    using abs_le_square_iff [of "a1 - b1" "real_of_int len"] l by simp
  have "(a2 - b2)\<^sup>2 \<le> (real_of_int len)\<^sup>2"
    using s zero_le_power2 [of "a0 - b0"] zero_le_power2 [of "a1 - b1"] by linarith
  then show "\<bar>a2 - b2\<bar> \<le> real_of_int len"
    using abs_le_square_iff [of "a2 - b2" "real_of_int len"] l by simp
qed

lemma adjacent_coordinates_member:
  assumes "k < n" and "k \<le> k' + 1" and "k' \<le> k + 1"
  shows "k \<in> set (adjacent_coordinates n k')"
  using assms by (auto simp: adjacent_coordinates_def)

lemma box_coordinate_adjacent:
  assumes "0 < len" and "0 < n" and "\<bar>p - p'\<bar> \<le> real_of_int len"
  shows "box_coordinate lo len n p \<in> set (adjacent_coordinates n (box_coordinate lo len n p'))"
proof (rule adjacent_coordinates_member)
  show "box_coordinate lo len n p < n"
    using assms(2) by (rule box_coordinate_less)
  show "box_coordinate lo len n p \<le> box_coordinate lo len n p' + 1"
    using assms by (rule box_coordinate_near)
  have "\<bar>p' - p\<bar> \<le> real_of_int len" using assms(3) by simp
  with assms(1,2) show "box_coordinate lo len n p' \<le> box_coordinate lo len n p + 1"
    by (rule box_coordinate_near)
qed



lemma neighbor_boxes_member:
  assumes "GetNumBoxesAxis g = (nx, ny, nz)"
    and "x \<in> set (adjacent_coordinates nx xq)"
    and "y \<in> set (adjacent_coordinates ny yq)"
    and "z \<in> set (adjacent_coordinates nz zq)"
  shows "FlattenBoxCoordinates g (x, y, z) \<in> set (neighbor_boxes g (xq, yq, zq))"
  using assms(2,3,4) by (simp add: neighbor_boxes_def assms(1)) blast

lemma Update_fields:
  "grid_dimensions (Update dims len agents) = dims"
  "box_length (Update dims len agents) = len"
  by (simp_all add: Update_def Let_def)

lemma GetBoxIndex_cong:
  assumes "grid_dimensions g = grid_dimensions g'" and "box_length g = box_length g'"
  shows "GetBoxIndex g pos = GetBoxIndex g' pos"
  by (simp add: GetBoxIndex_def FlattenBoxCoordinates_def PositionToBoxCoordinates_def
      GetNumBoxesAxis_def assms)

lemma boxes_Update:
  "boxes (Update dims len agents) idx =
     filter (\<lambda>a. GetBoxIndex (Update dims len agents) (position a) = idx) agents"
proof -
  have e: "GetBoxIndex (Update dims len agents) pos
        = GetBoxIndex \<lparr>grid_dimensions = dims, box_length = len, boxes = (\<lambda>idx. [])\<rparr> pos" for pos
    by (rule GetBoxIndex_cong) (simp_all add: Update_fields)
  show ?thesis
    unfolding e by (simp add: Update_def Let_def)
qed

lemma in_range_is_neighbor_box:
  assumes len: "0 < box_length g"
    and near: "SquaredEuclideanDistance pos qpos \<le> r2"
    and r2: "r2 \<le> real_of_int (box_length g * box_length g)"
  shows "GetBoxIndex g pos \<in> set (neighbor_boxes g (PositionToBoxCoordinates g qpos))"
proof -
  obtain x0 x1 y0 y1 z0 z1 where d: "grid_dimensions g = (x0, x1, y0, y1, z0, z1)"
    by (cases "grid_dimensions g")
  obtain px py pz where p: "pos = (px, py, pz)"
    by (cases pos)
  obtain qx qy qz where q: "qpos = (qx, qy, qz)"
    by (cases qpos)
  obtain nx ny nz where n: "GetNumBoxesAxis g = (nx, ny, nz)"
    by (cases "GetNumBoxesAxis g")
  have pos: "0 < nx" "0 < ny" "0 < nz"
    using n by (auto simp: GetNumBoxesAxis_def d num_boxes_pos)
  note ax = squared_distance_axes [OF near [unfolded p q] r2 len]
  show ?thesis
    unfolding GetBoxIndex_def
    by (simp add: PositionToBoxCoordinates_def d p q n)
       (intro neighbor_boxes_member [OF n] box_coordinate_adjacent len pos ax)
qed

lemma SquaredEuclideanDistance_commute:
  "SquaredEuclideanDistance a b = SquaredEuclideanDistance b a"
  by (cases a; cases b) (simp add: SquaredEuclideanDistance_def algebra_simps)

lemma visited_set:
  assumes "0 < len" and "squared_radius \<le> real_of_int (len * len)"
  shows "set (ForEachNeighborWithinRadius (Update dims len agents) query squared_radius) =
           {other \<in> set agents. uid other \<noteq> uid query \<and>
              SquaredEuclideanDistance (position other) (position query) \<le> squared_radius}"
proof -
  let ?g = "Update dims len agents"
  have len: "0 < box_length ?g" and r2: "squared_radius \<le> real_of_int (box_length ?g * box_length ?g)"
    using assms by (simp_all add: Update_fields)
  show ?thesis
  proof (intro equalityI subsetI)
    fix other
    assume "other \<in> set (ForEachNeighborWithinRadius ?g query squared_radius)"
    then show "other \<in> {other \<in> set agents. uid other \<noteq> uid query \<and>
              SquaredEuclideanDistance (position other) (position query) \<le> squared_radius}"
      by (auto simp: ForEachNeighborWithinRadius_def boxes_Update)
  next
    fix other
    assume "other \<in> {other \<in> set agents. uid other \<noteq> uid query \<and>
              SquaredEuclideanDistance (position other) (position query) \<le> squared_radius}"
    then have o: "other \<in> set agents" "uid other \<noteq> uid query"
      and near: "SquaredEuclideanDistance (position other) (position query) \<le> squared_radius"
      by simp_all
    have "GetBoxIndex ?g (position other)
            \<in> set (neighbor_boxes ?g (PositionToBoxCoordinates ?g (position query)))"
      using len near r2 by (rule in_range_is_neighbor_box)
    with o near show "other \<in> set (ForEachNeighborWithinRadius ?g query squared_radius)"
      by (auto simp: ForEachNeighborWithinRadius_def boxes_Update)
  qed
qed

text \<open>
  C1, as amended. For every agent collection the grid is built over, every query
  agent and every squared radius that does not exceed the square of the box edge
  length, the callback is invoked exactly on the agents of the collection, other than
  the query agent, whose squared Euclidean distance to the query agent is at most the
  squared radius. Hence two distinct agents within that distance of each other are
  each in the other's visited set.
\<close>

theorem neighbors_within_box_length:
  "0 < len \<Longrightarrow> squared_radius \<le> real_of_int (len * len) \<Longrightarrow>
     set (ForEachNeighborWithinRadius (Update dims len agents) query squared_radius) =
       {other \<in> set agents. uid other \<noteq> uid query \<and>
          SquaredEuclideanDistance (position other) (position query) \<le> squared_radius}
     \<and> (\<forall>a \<in> set agents. \<forall>b \<in> set agents.
          uid a \<noteq> uid b \<longrightarrow>
          SquaredEuclideanDistance (position a) (position b) \<le> squared_radius \<longrightarrow>
            b \<in> set (ForEachNeighborWithinRadius (Update dims len agents) a squared_radius) \<and>
            a \<in> set (ForEachNeighborWithinRadius (Update dims len agents) b squared_radius))"
proof -
  assume a: "0 < len" "squared_radius \<le> real_of_int (len * len)"
  have "b \<in> set (ForEachNeighborWithinRadius (Update dims len agents) a squared_radius) \<and>
        a \<in> set (ForEachNeighborWithinRadius (Update dims len agents) b squared_radius)"
    if "a \<in> set agents" "b \<in> set agents" "uid a \<noteq> uid b"
      and d: "SquaredEuclideanDistance (position a) (position b) \<le> squared_radius" for a b
  proof -
    have "SquaredEuclideanDistance (position b) (position a) \<le> squared_radius"
      using d by (simp only: SquaredEuclideanDistance_commute [of "position b" "position a"])
    with that show ?thesis
      unfolding visited_set [OF a] by simp
  qed
  then show ?thesis
    using visited_set [OF a] by blast
qed

lemma row_axis: "GetNumBoxesAxis row_grid = (4, 2, 2)"
  by (simp add: row_grid_def Update_fields GetNumBoxesAxis_def num_boxes_def)

lemma row_index:
  "GetBoxIndex row_grid (0, 0, 0) = 13" "GetBoxIndex row_grid (29, 0, 0) = 13"
  "GetBoxIndex row_grid (60, 0, 0) = 15"
  "PositionToBoxCoordinates row_grid (29, 0, 0) = (1, 1, 1)"
  by (simp_all add: GetBoxIndex_def FlattenBoxCoordinates_def PositionToBoxCoordinates_def
      row_axis box_coordinate_def Let_def)
     (simp_all add: row_grid_def Update_fields)

lemma row_neighbor_boxes:
  "neighbor_boxes row_grid (1, 1, 1) = [0, 1, 2, 4, 5, 6, 8, 9, 10, 12, 13, 14]"
  by (simp add: neighbor_boxes_def row_axis adjacent_coordinates_def FlattenBoxCoordinates_def)

lemma row_boxes:
  "boxes row_grid 13 = [Cell 0 (0, 0, 0) 30, Cell 1 (29, 0, 0) 30]"
  "boxes row_grid 15 = [Cell 2 (60, 0, 0) 30]"
  "idx \<noteq> 13 \<Longrightarrow> idx \<noteq> 15 \<Longrightarrow> boxes row_grid idx = []"
  unfolding row_grid_def boxes_Update
  unfolding row_grid_def [symmetric]
  by (simp_all add: row_cells_def Cell_def row_index)

lemma row_query:
  "ForEachNeighborWithinRadius row_grid (Cell 1 (29, 0, 0) 30) r2
     = (if 841 \<le> r2 then [Cell 0 (0, 0, 0) 30] else [])"
proof -
  have p: "position (Cell 1 (29, 0, 0) 30) = (29, 0, 0)"
    by (simp add: Cell_def)
  show ?thesis
    unfolding ForEachNeighborWithinRadius_def p row_index(4) row_neighbor_boxes
    by (simp add: row_boxes) (simp add: Cell_def SquaredEuclideanDistance_def)
qed

text \<open>
  C1 as stated, for every squared radius, fails: with box length 30 and the squared
  radius 1201 of the grid tests, the cell at \<open>(60, 0, 0)\<close> is within range of the
  cell at \<open>(29, 0, 0)\<close> (squared distance 961) but lies two boxes away, outside the
  3 by 3 by 3 block the query visits.
\<close>

theorem too_large_radius_misses_neighbor:
  "Cell 2 (60, 0, 0) 30 \<in> set row_cells
   \<and> uid (Cell 2 (60, 0, 0) 30) \<noteq> uid (Cell 1 (29, 0, 0) 30)
   \<and> SquaredEuclideanDistance (position (Cell 2 (60, 0, 0) 30)) (position (Cell 1 (29, 0, 0) 30))
        \<le> 1201
   \<and> Cell 2 (60, 0, 0) 30
        \<notin> set (ForEachNeighborWithinRadius (Update (-30, 90, -30, 30, -30, 30) 30 row_cells)
                 (Cell 1 (29, 0, 0) 30) 1201)"
  unfolding row_grid_def [symmetric] row_query
  by (simp add: row_cells_def Cell_def SquaredEuclideanDistance_def)


lemma row_query_0:
  "Cell 1 (29, 0, 0) 30 \<in> set (ForEachNeighborWithinRadius row_grid (Cell 0 (0, 0, 0) 30) 900)"
proof -
  have p: "position (Cell 0 (0, 0, 0) 30) = (0, 0, 0)"
    by (simp add: Cell_def)
  have c: "PositionToBoxCoordinates row_grid (0, 0, 0) = (1, 1, 1)"
    by (simp add: PositionToBoxCoordinates_def row_axis box_coordinate_def Let_def)
       (simp add: row_grid_def Update_fields)
  show ?thesis
    unfolding ForEachNeighborWithinRadius_def p c row_neighbor_boxes
    by (simp add: row_boxes) (simp add: Cell_def SquaredEuclideanDistance_def)
qed

theorem neighbors_within_box_length_witness:
  "(0::int) < 30 \<and> (900::real) \<le> real_of_int (30 * 30)
   \<and> Cell 0 (0, 0, 0) 30 \<in> set row_cells \<and> Cell 1 (29, 0, 0) 30 \<in> set row_cells
   \<and> uid (Cell 0 (0, 0, 0) 30) \<noteq> uid (Cell 1 (29, 0, 0) 30)
   \<and> SquaredEuclideanDistance (position (Cell 0 (0, 0, 0) 30)) (position (Cell 1 (29, 0, 0) 30))
        \<le> 900
   \<and> ForEachNeighborWithinRadius row_grid (Cell 1 (29, 0, 0) 30) 900 = [Cell 0 (0, 0, 0) 30]
   \<and> set (ForEachNeighborWithinRadius row_grid (Cell 1 (29, 0, 0) 30) 900) =
       {other \<in> set row_cells. uid other \<noteq> uid (Cell 1 (29, 0, 0) 30) \<and>
          SquaredEuclideanDistance (position other) (position (Cell 1 (29, 0, 0) 30)) \<le> 900}
   \<and> Cell 1 (29, 0, 0) 30 \<in> set (ForEachNeighborWithinRadius row_grid (Cell 0 (0, 0, 0) 30) 900)
   \<and> Cell 0 (0, 0, 0) 30 \<in> set (ForEachNeighborWithinRadius row_grid (Cell 1 (29, 0, 0) 30) 900)"
proof -
  have h: "(0::int) < 30" "(900::real) \<le> real_of_int (30 * 30)"
    by simp_all
  have m: "Cell 0 (0, 0, 0) 30 \<in> set row_cells" "Cell 1 (29, 0, 0) 30 \<in> set row_cells"
    "uid (Cell 0 (0, 0, 0) 30) \<noteq> uid (Cell 1 (29, 0, 0) 30)"
    "SquaredEuclideanDistance (position (Cell 0 (0, 0, 0) 30)) (position (Cell 1 (29, 0, 0) 30))
        \<le> 900"
    by (simp_all add: row_cells_def Cell_def SquaredEuclideanDistance_def)
  note t = neighbors_within_box_length
    [OF h, of "(-30, 90, -30, 30, -30, 30)" row_cells "Cell 1 (29, 0, 0) 30",
     folded row_grid_def]
  from t have s: "set (ForEachNeighborWithinRadius row_grid (Cell 1 (29, 0, 0) 30) 900) =
       {other \<in> set row_cells. uid other \<noteq> uid (Cell 1 (29, 0, 0) 30) \<and>
          SquaredEuclideanDistance (position other) (position (Cell 1 (29, 0, 0) 30)) \<le> 900}"
    by (rule conjunct1)
  from t m have "Cell 1 (29, 0, 0) 30 \<in> set (ForEachNeighborWithinRadius row_grid (Cell 0 (0, 0, 0) 30) 900)
    \<and> Cell 0 (0, 0, 0) 30 \<in> set (ForEachNeighborWithinRadius row_grid (Cell 1 (29, 0, 0) 30) 900)"
    by blast
  moreover have "ForEachNeighborWithinRadius row_grid (Cell 1 (29, 0, 0) 30) 900
      = [Cell 0 (0, 0, 0) 30]"
    by (simp only: row_query) simp
  ultimately show ?thesis
    using h m s by (intro conjI) (rule TrueI | assumption | erule conjunct1 | erule conjunct2)+
qed

subsection \<open>Agreement with the grid tests\<close>

text \<open>
  The values that \<open>GridTest.GetBoxCoordinates\<close> and \<open>GridTest.SetupGrid\<close> expect:
  the coordinates of the boxes 3, 9 and 57 of the 4 by 4 by 4 grid, and the neighbors
  of cell 0 within squared radius 1201 in the lattice of 64 cells.
\<close>

lemma GetBoxCoordinates_expected:
  "GetBoxCoordinates lattice3_grid 3 = (3, 0, 0)"
  "GetBoxCoordinates lattice3_grid 9 = (1, 2, 0)"
  "GetBoxCoordinates lattice3_grid 57 = (1, 2, 3)"
  by (simp_all add: GetBoxCoordinates_def lattice3_axis Let_def)

lemma visited_as_filter:
  "set (ForEachNeighborWithinRadius (Update dims len agents) query r2) =
     set (filter (\<lambda>other.
            GetBoxIndex (Update dims len agents) (position other)
              \<in> set (neighbor_boxes (Update dims len agents)
                       (PositionToBoxCoordinates (Update dims len agents) (position query))) \<and>
            uid other \<noteq> uid query \<and>
            SquaredEuclideanDistance (position other) (position query) \<le> r2) agents)"
  by (auto simp: ForEachNeighborWithinRadius_def boxes_Update)

lemma lattice4_axis: "GetNumBoxesAxis lattice4_grid = (4, 4, 4)"
  by (simp add: lattice4_grid_def Update_fields GetNumBoxesAxis_def num_boxes_def)

lemma lattice4_index:
  "GetBoxIndex lattice4_grid (px, py, pz)
     = box_coordinate (-30) 30 4 px + box_coordinate (-30) 30 4 py * 4
       + box_coordinate (-30) 30 4 pz * 4 * 4"
  by (simp add: GetBoxIndex_def FlattenBoxCoordinates_def PositionToBoxCoordinates_def
      lattice4_axis)
     (simp add: lattice4_grid_def Update_fields)

lemma lattice4_coordinates:
  "box_coordinate (-30) 30 4 0 = 1" "box_coordinate (-30) 30 4 20 = 1"
  "box_coordinate (-30) 30 4 40 = 2" "box_coordinate (-30) 30 4 60 = 3"
  by (simp_all add: box_coordinate_def)

lemma SetupGrid_expected_0:
  "uid ` set (ForEachNeighborWithinRadius lattice4_grid (Cell 0 (0, 0, 0) 30) 1201)
     = {1, 4, 5, 16, 17, 20, 21}"
proof -
  have p: "position (Cell 0 (0, 0, 0) 30) = (0, 0, 0)" "uid (Cell 0 (0, 0, 0) 30) = 0"
    by (simp_all add: Cell_def)
  have c: "PositionToBoxCoordinates lattice4_grid (0, 0, 0) = (1, 1, 1)"
    by (simp add: PositionToBoxCoordinates_def lattice4_axis box_coordinate_def Let_def)
       (simp add: lattice4_grid_def Update_fields)
  have nb: "set (neighbor_boxes lattice4_grid (1, 1, 1)) =
      {0, 1, 2, 4, 5, 6, 8, 9, 10, 16, 17, 18, 20, 21, 22, 24, 25, 26,
       32, 33, 34, 36, 37, 38, 40, 41, 42}"
    by (simp add: neighbor_boxes_def lattice4_axis adjacent_coordinates_def
        FlattenBoxCoordinates_def numeral_2_eq_2)
  have v: "set (ForEachNeighborWithinRadius lattice4_grid (Cell 0 (0, 0, 0) 30) 1201) =
     set (filter (\<lambda>other.
            GetBoxIndex lattice4_grid (position other)
              \<in> set (neighbor_boxes lattice4_grid (1, 1, 1)) \<and>
            uid other \<noteq> 0 \<and>
            SquaredEuclideanDistance (position other) (0, 0, 0) \<le> 1201) (CellFactory 4))"
    unfolding lattice4_grid_def visited_as_filter p
    unfolding lattice4_grid_def [symmetric] c ..
  have upt4: "[0..<4] = [0, 1, 2, 3]"
    by (simp add: upt_rec)
  show ?thesis
    unfolding v nb
    by (simp add: CellFactory_def upt4 Cell_def lattice4_index lattice4_coordinates
        SquaredEuclideanDistance_def)
qed

section \<open>Properties of the diffusion grid\<close>

lemma fold_writes:
  assumes len: "\<And>k c. length (step k c) = length c"
    and nth: "\<And>k c i. i < length c \<Longrightarrow> step k c ! i = (if i \<in> S k then v else c ! i)"
  shows "length (fold step ks c) = length c"
    and "i < length c \<Longrightarrow> fold step ks c ! i = (if i \<in> (\<Union>k \<in> set ks. S k) then v else c ! i)"
proof -
  show l: "length (fold step ks c) = length c" for c
    by (induction ks arbitrary: c) (simp_all add: len)
  show "i < length c \<Longrightarrow> fold step ks c ! i = (if i \<in> (\<Union>k \<in> set ks. S k) then v else c ! i)"
  proof (induction ks arbitrary: c)
    case Nil
    show ?case by simp
  next
    case (Cons k ks)
    from Cons.prems have "i < length (step k c)" by (simp add: len)
    from Cons.IH [OF this] show ?case
      using Cons.prems by (simp add: nth)
  qed
qed

lemma init_point_const:
  "length (init_point dg (\<lambda>x y z. v) c conc) = length conc"
  "i < length conc \<Longrightarrow>
     init_point dg (\<lambda>x y z. v) c conc ! i = (if i \<in> {dgrid_box_index dg c} then v else conc ! i)"
  by (auto simp: init_point_def split: prod.splits)

lemma index_decomposition:
  fixes i nx ny nz :: nat
  assumes "i < nx * ny * nz"
  shows "\<exists>x < nx. \<exists>y < ny. \<exists>z < nz. i = x + y * nx + z * nx * ny"
proof -
  have pos: "0 < nx" "0 < ny"
    using assms by (cases nx; cases ny; simp)+
  let ?x = "i mod nx" and ?y = "(i div nx) mod ny" and ?z = "i div (nx * ny)"
  have "?x < nx" "?y < ny" using pos by simp_all
  moreover have "?z < nz"
    using assms pos by (simp add: less_mult_imp_div_less mult.commute)
  moreover have "i = ?x + ?y * nx + ?z * nx * ny"
  proof -
    have "i div nx = ?y + ?z * ny"
      by (simp add: div_mult2_eq)
    then have "i = ?x + (?y + ?z * ny) * nx"
      by (metis mod_mult_div_eq mult.commute)
    then show ?thesis by (simp add: algebra_simps)
  qed
  ultimately show ?thesis by blast
qed

lemma sweep_const:
  assumes n: "num_boxes_axis dg = (nx, ny, nz)" and l: "length conc = nx * ny * nz"
  shows "fold (\<lambda>x. fold (\<lambda>y. fold (\<lambda>z. init_point dg (\<lambda>x y z. v) (x, y, z)) [0..<nz]) [0..<ny])
           [0..<nx] conc = replicate (nx * ny * nz) v"
proof -
  let ?pt = "\<lambda>x y z. init_point dg (\<lambda>x y z. v) (x, y, z)"
  let ?row = "\<lambda>x y. fold (?pt x y) [0..<nz]"
  let ?plane = "\<lambda>x. fold (?row x) [0..<ny]"
  let ?S = "\<lambda>x y z. {dgrid_box_index dg (x, y, z)}"
  have row_len: "length (?row x y c) = length c" for x y c
    by (rule fold_writes(1) [where step = "?pt x y" and S = "?S x y"]) (rule init_point_const)+
  have row_nth: "?row x y c ! i = (if i \<in> (\<Union>z \<in> set [0..<nz]. ?S x y z) then v else c ! i)"
    if "i < length c" for x y c i
    using that
    by (rule fold_writes(2) [where step = "?pt x y" and S = "?S x y", rotated 2])
       (rule init_point_const)+
  have plane_len: "length (?plane x c) = length c" for x c
    by (rule fold_writes(1) [where step = "?row x" and S = "\<lambda>y. \<Union>z \<in> set [0..<nz]. ?S x y z"])
       (rule row_len, rule row_nth)
  have plane_nth: "?plane x c ! i
      = (if i \<in> (\<Union>y \<in> set [0..<ny]. \<Union>z \<in> set [0..<nz]. ?S x y z) then v else c ! i)"
    if "i < length c" for x c i
    using that
    by (rule fold_writes(2) [where step = "?row x" and S = "\<lambda>y. \<Union>z \<in> set [0..<nz]. ?S x y z",
          rotated 2])
       (rule row_len, rule row_nth)
  have all_len: "length (fold ?plane [0..<nx] conc) = length conc"
    by (rule fold_writes(1)
          [where step = ?plane
             and S = "\<lambda>x. \<Union>y \<in> set [0..<ny]. \<Union>z \<in> set [0..<nz]. ?S x y z"])
       (rule plane_len, rule plane_nth)
  have all_nth: "fold ?plane [0..<nx] conc ! i
      = (if i \<in> (\<Union>x \<in> set [0..<nx]. \<Union>y \<in> set [0..<ny]. \<Union>z \<in> set [0..<nz]. ?S x y z)
         then v else conc ! i)"
    if "i < length conc" for i
    using that
    by (rule fold_writes(2)
          [where step = ?plane
             and S = "\<lambda>x. \<Union>y \<in> set [0..<ny]. \<Union>z \<in> set [0..<nz]. ?S x y z", rotated 2])
       (rule plane_len, rule plane_nth)
  have cover: "i \<in> (\<Union>x \<in> set [0..<nx]. \<Union>y \<in> set [0..<ny]. \<Union>z \<in> set [0..<nz]. ?S x y z)"
    if "i < nx * ny * nz" for i
  proof -
    from index_decomposition [OF that] obtain x y z
      where "x < nx" "y < ny" "z < nz" "i = x + y * nx + z * nx * ny"
      by blast
    then have "x \<in> set [0..<nx]" "y \<in> set [0..<ny]" "z \<in> set [0..<nz]"
      "i \<in> {dgrid_box_index dg (x, y, z)}"
      by (simp_all add: dgrid_box_index_def n)
    then show ?thesis by blast
  qed
  show ?thesis
  proof (rule nth_equalityI)
    show "length (fold ?plane [0..<nx] conc) = length (replicate (nx * ny * nz) v)"
      by (simp add: all_len l)
    fix i
    assume "i < length (fold ?plane [0..<nx] conc)"
    then have i: "i < nx * ny * nz" by (simp add: all_len l)
    then have "fold ?plane [0..<nx] conc ! i = v"
      unfolding all_nth [of i, unfolded l, OF i] using cover [OF i] by (simp only: if_True)
    with i show "fold ?plane [0..<nx] conc ! i = replicate (nx * ny * nz) v ! i"
      by simp
  qed
qed

text \<open>
  C7. After \<open>Initialize()\<close> and \<open>RunInitializers()\<close> with one initializer that returns
  the constant \<open>v\<close> everywhere, both concentration buffers have one entry per grid
  point and every entry is exactly \<open>v\<close>; the three nested loops reach every index
  below \<open>nx * ny * nz\<close>. Swapping the buffers therefore leaves \<open>v\<close> at every point of
  the current buffer: no zero of the initial fill remains.
\<close>

theorem constant_initializer_fills_both_buffers:
  "initializers dg = [\<lambda>x y z. v] \<Longrightarrow>
     c1 (RunInitializers (Initialize dg)) = replicate (total_num_boxes dg) v
   \<and> c2 (RunInitializers (Initialize dg)) = replicate (total_num_boxes dg) v
   \<and> c1 (SwapBuffers (RunInitializers (Initialize dg))) = replicate (total_num_boxes dg) v
   \<and> c2 (SwapBuffers (RunInitializers (Initialize dg))) = replicate (total_num_boxes dg) v
   \<and> (\<forall>i < total_num_boxes dg.
        c1 (RunInitializers (Initialize dg)) ! i = v \<and> c2 (RunInitializers (Initialize dg)) ! i = v)"
proof -
  assume f: "initializers dg = [\<lambda>x y z. v]"
  obtain nx ny nz where n: "num_boxes_axis dg = (nx, ny, nz)"
    by (cases "num_boxes_axis dg")
  have n': "num_boxes_axis (Initialize dg) = (nx, ny, nz)"
    by (simp add: Initialize_def n)
  have t: "total_num_boxes dg = nx * ny * nz"
    by (simp add: total_num_boxes_def n)
  have l: "length (c1 (Initialize dg)) = nx * ny * nz"
    by (simp add: Initialize_def t)
  have "c1 (RunInitializers (Initialize dg)) = replicate (nx * ny * nz) v"
    and "c2 (RunInitializers (Initialize dg)) = replicate (nx * ny * nz) v"
    using sweep_const [OF n' l, of v]
    by (simp_all add: RunInitializers_def n' Let_def) (simp_all add: Initialize_def f)
  then show ?thesis
    by (simp add: SwapBuffers_def t)
qed


theorem constant_initializer_fills_both_buffers_witness:
  "initializers small_dgrid = [\<lambda>x y z. 0.5]
   \<and> total_num_boxes small_dgrid = 8 \<and> (7::nat) < 8
   \<and> c1 (RunInitializers (Initialize small_dgrid)) = replicate 8 0.5
   \<and> c2 (RunInitializers (Initialize small_dgrid)) = replicate 8 0.5
   \<and> c1 (SwapBuffers (RunInitializers (Initialize small_dgrid))) = replicate 8 0.5
   \<and> c1 (RunInitializers (Initialize small_dgrid)) ! 7 = 0.5
   \<and> c2 (RunInitializers (Initialize small_dgrid)) ! 7 = 0.5"
proof -
  have f: "initializers small_dgrid = [\<lambda>x y z. 0.5]"
    and t: "total_num_boxes small_dgrid = 8"
    by (simp_all add: small_dgrid_def total_num_boxes_def)
  from constant_initializer_fills_both_buffers [OF f] show ?thesis
    unfolding t using f by simp
qed

end
